theory Spec2Isabelle
  imports Complex_Main "HOL-Library.AList" "HOL-Library.Multiset"
begin

section \<open>Python values\<close>

text \<open>
  The cast pipeline of \<^verbatim>\<open>core_processor.py\<close> works on JSON-shaped Python data:
  every cast member is a \<^verbatim>\<open>dict\<close> with string keys whose values are untyped.
  A dictionary is an association list in insertion order (the order Python keeps), read
  with \<open>map_of\<close> and written with \<open>AList.update\<close>, which replaces the value of an
  existing key in place and appends a new key at the end, as \<^verbatim>\<open>d[k] = v\<close> does.
  A float is a mantissa and a binary exponent.
  Strings are byte strings: a non-ASCII character is its UTF-8 bytes.
\<close>

datatype pyval =
    PNone
  | PBool bool
  | PInt int
  | PFloat int int
  | PStr string
  | PList "pyval list"
  | PDict "(string \<times> pyval) list"

type_synonym pydict = "(string \<times> pyval) list"

text \<open>The exceptions the modelled code raises, catches or lets through.\<close>

datatype exn =
    InterruptedError
  | ValueError
  | TypeError
  | AttributeError
  | IndexError
  | SqliteError
  | OtherError

definition bind_e :: "exn + 'a \<Rightarrow> ('a \<Rightarrow> exn + 'b) \<Rightarrow> exn + 'b" where
  "bind_e r f = (case r of Inl e \<Rightarrow> Inl e | Inr x \<Rightarrow> f x)"

text \<open>\<^verbatim>\<open>bool(v)\<close>: the truth value Python gives a value in \<^verbatim>\<open>if v\<close>, \<^verbatim>\<open>a and b\<close>, \<^verbatim>\<open>a or b\<close>.\<close>

fun truthy :: "pyval \<Rightarrow> bool" where
  "truthy PNone = False"
| "truthy (PBool b) = b"
| "truthy (PInt n) = (n \<noteq> 0)"
| "truthy (PFloat m e) = (m \<noteq> 0)"
| "truthy (PStr s) = (s \<noteq> [])"
| "truthy (PList xs) = (xs \<noteq> [])"
| "truthy (PDict d) = (d \<noteq> [])"

text \<open>\<^verbatim>\<open>d.get(k)\<close> and \<^verbatim>\<open>d.get(k, default)\<close> on a dictionary.\<close>

definition py_get :: "pydict \<Rightarrow> string \<Rightarrow> pyval" where
  "py_get d k = (case map_of d k of None \<Rightarrow> PNone | Some v \<Rightarrow> v)"

definition py_get_default :: "pydict \<Rightarrow> string \<Rightarrow> pyval \<Rightarrow> pyval" where
  "py_get_default d k dflt = (case map_of d k of None \<Rightarrow> dflt | Some v \<Rightarrow> v)"

text \<open>\<^verbatim>\<open>v.get(k)\<close> on an arbitrary value: only a dictionary has the method.\<close>

definition py_val_get :: "pyval \<Rightarrow> string \<Rightarrow> exn + pyval" where
  "py_val_get v k = (case v of PDict d \<Rightarrow> Inr (py_get d k) | _ \<Rightarrow> Inl AttributeError)"

definition py_val_get_default :: "pyval \<Rightarrow> string \<Rightarrow> pyval \<Rightarrow> exn + pyval" where
  "py_val_get_default v k dflt =
     (case v of PDict d \<Rightarrow> Inr (py_get_default d k dflt) | _ \<Rightarrow> Inl AttributeError)"

subsection \<open>Strings\<close>

function str_of_nat :: "nat \<Rightarrow> string" where
  "str_of_nat n =
     (if n < 10 then [char_of (48 + n)]
      else str_of_nat (n div 10) @ [char_of (48 + n mod 10)])"
  by pat_completeness auto
termination
  by (relation "measure id") auto

declare str_of_nat.simps [simp del]

text \<open>
  \<^verbatim>\<open>str(v)\<close>. The identifiers of all three sources are JSON integers, strings or null;
  the \<^verbatim>\<open>repr\<close> of floats and containers is not modelled and stands as a fixed text
  that is neither empty nor \<^verbatim>\<open>'None'\<close>.
\<close>

fun py_str :: "pyval \<Rightarrow> string" where
  "py_str PNone = ''None''"
| "py_str (PBool b) = (if b then ''True'' else ''False'')"
| "py_str (PInt n) = (if n < 0 then CHR ''-'' # str_of_nat (nat (- n)) else str_of_nat (nat n))"
| "py_str (PStr s) = s"
| "py_str (PFloat m e) = ''<float>''"
| "py_str (PList xs) = ''<list>''"
| "py_str (PDict d) = ''<dict>''"

text \<open>
  \<^verbatim>\<open>s.lower()\<close> and \<^verbatim>\<open>s.strip()\<close> on the ASCII range: bytes above 127 (the UTF-8
  encoding of CJK names) are left as they are.
\<close>

definition lower_char :: "char \<Rightarrow> char" where
  "lower_char c =
     (let n = (of_char c :: nat) in if 65 \<le> n \<and> n \<le> 90 then char_of (n + 32) else c)"

definition py_lower :: "string \<Rightarrow> string" where
  "py_lower s = map lower_char s"

definition is_space :: "char \<Rightarrow> bool" where
  "is_space c = (let n = (of_char c :: nat) in (9 \<le> n \<and> n \<le> 13) \<or> (28 \<le> n \<and> n \<le> 32))"

definition py_strip :: "string \<Rightarrow> string" where
  "py_strip s = rev (dropWhile is_space (rev (dropWhile is_space s)))"

subsection \<open>Numbers and hashable values\<close>

text \<open>
  The value of a number. Python compares integers, booleans and floats with each other
  exactly, so the value is a rational; it is the sort key and the hash key of a number.
\<close>

definition float_value :: "int \<Rightarrow> int \<Rightarrow> rat" where
  "float_value m e = (if 0 \<le> e then of_int (m * 2 ^ nat e) else of_int m / of_int (2 ^ nat (- e)))"

fun numeric_value :: "pyval \<Rightarrow> rat option" where
  "numeric_value (PInt n) = Some (of_int n)"
| "numeric_value (PBool b) = Some (if b then 1 else 0)"
| "numeric_value (PFloat m e) = Some (float_value m e)"
| "numeric_value v = None"

text \<open>
  A dictionary keyed by arbitrary values compares keys with \<^verbatim>\<open>==\<close> after hashing:
  \<^verbatim>\<open>True\<close>, \<^verbatim>\<open>1\<close> and \<^verbatim>\<open>1.0\<close> are one key, and a list or a dictionary is unhashable
  (\<^verbatim>\<open>TypeError\<close>).
\<close>

datatype hkey = KNone | KNum rat | KStr string

definition py_hash_key :: "pyval \<Rightarrow> exn + hkey" where
  "py_hash_key v =
     (case v of
        PNone \<Rightarrow> Inr KNone
      | PStr s \<Rightarrow> Inr (KStr s)
      | PBool b \<Rightarrow> Inr (KNum (if b then 1 else 0))
      | PInt n \<Rightarrow> Inr (KNum (of_int n))
      | PFloat m e \<Rightarrow> Inr (KNum (float_value m e))
      | PList xs \<Rightarrow> Inl TypeError
      | PDict d \<Rightarrow> Inl TypeError)"

text \<open>
  \<^verbatim>\<open>for x in v\<close>: a list yields its elements, a dictionary its keys, a string its
  characters; anything else is not iterable.
\<close>

fun py_iter :: "pyval \<Rightarrow> exn + pyval list" where
  "py_iter (PList xs) = Inr xs"
| "py_iter (PDict d) = Inr (map (\<lambda>kv. PStr (fst kv)) d)"
| "py_iter (PStr s) = Inr (map (\<lambda>c. PStr [c]) s)"
| "py_iter v = Inl TypeError"

text \<open>\<^verbatim>\<open>a + b\<close> where the code concatenates two cast lists.\<close>

fun py_concat :: "pyval \<Rightarrow> pyval \<Rightarrow> exn + pyval" where
  "py_concat (PList xs) (PList ys) = Inr (PList (xs @ ys))"
| "py_concat (PStr a) (PStr b) = Inr (PStr (a @ b))"
| "py_concat (PInt a) (PInt b) = Inr (PInt (a + b))"
| "py_concat a b = Inl TypeError"

text \<open>\<^verbatim>\<open>if k not in d: d[k] = v\<close>.\<close>

definition set_default :: "string \<Rightarrow> pyval \<Rightarrow> pydict \<Rightarrow> pydict" where
  "set_default k v d = (if map_of d k = None then AList.update k v d else d)"

section \<open>Aggregating the cast of a series\<close>

text \<open>
  \<^verbatim>\<open>_aggregate_series_cast_from_tmdb_data\<close>. The aggregated map is keyed by the raw
  \<^verbatim>\<open>id\<close> value. The first loop stores every entry of the series' own cast that has a
  truthy id (a later entry with the same id replaces the earlier one, in its place).
\<close>

fun load_main_cast :: "pyval list \<Rightarrow> (hkey \<times> pydict) list \<Rightarrow> exn + (hkey \<times> pydict) list" where
  "load_main_cast [] m = Inr m"
| "load_main_cast (actor # rest) m =
     bind_e (py_val_get actor ''id'') (\<lambda>actor_id.
       if truthy actor_id then
         bind_e (py_hash_key actor_id) (\<lambda>k.
           case actor of
             PDict a \<Rightarrow> load_main_cast rest (AList.update k a m)
           | _ \<Rightarrow> Inl AttributeError)
       else load_main_cast rest m)"

text \<open>
  The inner loop over one episode's \<^verbatim>\<open>cast + guest_stars\<close>: an id not yet in the map is
  added, and gets \<^verbatim>\<open>order = 999\<close> only when the entry has no \<^verbatim>\<open>order\<close> key.
\<close>

fun add_episode_actors :: "pyval list \<Rightarrow> (hkey \<times> pydict) list \<Rightarrow> exn + (hkey \<times> pydict) list" where
  "add_episode_actors [] m = Inr m"
| "add_episode_actors (actor # rest) m =
     bind_e (py_val_get actor ''id'') (\<lambda>actor_id.
       if truthy actor_id then
         bind_e (py_hash_key actor_id) (\<lambda>k.
           if map_of m k = None then
             (case actor of
                PDict a \<Rightarrow>
                  add_episode_actors rest (AList.update k (set_default ''order'' (PInt 999) a) m)
              | _ \<Rightarrow> Inl AttributeError)
           else add_episode_actors rest m)
       else add_episode_actors rest m)"

fun add_episodes :: "pydict list \<Rightarrow> (hkey \<times> pydict) list \<Rightarrow> exn + (hkey \<times> pydict) list" where
  "add_episodes [] m = Inr m"
| "add_episodes (episode_data # rest) m =
     (let credits_data = py_get_default episode_data ''credits'' (PDict []) in
      bind_e (py_val_get_default credits_data ''cast'' (PList [])) (\<lambda>c.
      bind_e (py_val_get_default credits_data ''guest_stars'' (PList [])) (\<lambda>g.
      bind_e (py_concat c g) (\<lambda>both.
      bind_e (py_iter both) (\<lambda>actors_to_process.
      bind_e (add_episode_actors actors_to_process m) (\<lambda>m'.
        add_episodes rest m'))))))"

text \<open>
  The final \<^verbatim>\<open>sort(key=lambda x: x.get('order', 999))\<close>, a stable sort. With fewer than
  two entries nothing is compared; otherwise a key that is not a number is a
  \<^verbatim>\<open>TypeError\<close> in the model (Python would still order a list whose keys are all
  strings, which no source produces).
\<close>

definition order_key :: "pydict \<Rightarrow> rat option" where
  "order_key a = numeric_value (py_get_default a ''order'' (PInt 999))"

definition sort_by_order :: "pydict list \<Rightarrow> exn + pydict list" where
  "sort_by_order xs =
     (if length xs \<le> 1 then Inr xs
      else if list_all (\<lambda>a. order_key a \<noteq> None) xs
        then Inr (sort_key (\<lambda>a. case order_key a of Some q \<Rightarrow> q | None \<Rightarrow> 999) xs)
      else Inl TypeError)"

definition aggregated_cast_map :: "pydict \<Rightarrow> pydict list \<Rightarrow> exn + (hkey \<times> pydict) list" where
  "aggregated_cast_map series_data all_episodes_data =
     bind_e (py_val_get_default (py_get_default series_data ''credits'' (PDict [])) ''cast'' (PList []))
       (\<lambda>mc.
     bind_e (py_iter mc) (\<lambda>main_cast.
     bind_e (load_main_cast main_cast []) (\<lambda>m.
       add_episodes all_episodes_data m)))"

definition aggregate_series_cast_from_tmdb_data :: "pydict \<Rightarrow> pydict list \<Rightarrow> exn + pydict list" where
  "aggregate_series_cast_from_tmdb_data series_data all_episodes_data =
     bind_e (aggregated_cast_map series_data all_episodes_data) (\<lambda>m.
       sort_by_order (map snd m))"

section \<open>The adaptation layer\<close>

text \<open>
  \<^verbatim>\<open>_process_cast_list_from_api\<close> first builds the map from TMDb id to the server's
  person id out of the enriched snapshot (a dictionary comprehension over
  \<^verbatim>\<open>emby_cast_people\<close>), then normalises every record of the authoritative source.
\<close>

definition provider_tmdb :: "pydict \<Rightarrow> exn + pyval" where
  "provider_tmdb person = py_val_get (py_get_default person ''ProviderIds'' (PDict [])) ''Tmdb''"

fun build_emby_map :: "pydict list \<Rightarrow> (hkey \<times> pyval) list \<Rightarrow> exn + (hkey \<times> pyval) list" where
  "build_emby_map [] m = Inr m"
| "build_emby_map (person # rest) m =
     bind_e (provider_tmdb person) (\<lambda>t.
       if truthy t then
         bind_e (py_hash_key t) (\<lambda>k. build_emby_map rest (AList.update k (py_get person ''Id'') m))
       else build_emby_map rest m)"

text \<open>
  The id of a record: \<^verbatim>\<open>str(person_data.get("id"))\<close> when the key \<^verbatim>\<open>id\<close> is
  present, else the string of a truthy \<^verbatim>\<open>ProviderIds.Tmdb\<close>, else \<^verbatim>\<open>None\<close>.
\<close>

definition resolve_tmdb_id :: "pydict \<Rightarrow> exn + string option" where
  "resolve_tmdb_id person_data =
     (if map_of person_data ''id'' \<noteq> None then Inr (Some (py_str (py_get person_data ''id'')))
      else if map_of person_data ''ProviderIds'' \<noteq> None then
        bind_e (provider_tmdb person_data) (\<lambda>t.
          if truthy t then Inr (Some (py_str t)) else Inr None)
      else Inr None)"

definition adapt_entry :: "(hkey \<times> pyval) list \<Rightarrow> string \<Rightarrow> pydict \<Rightarrow> pydict" where
  "adapt_entry emby_map tmdb_id person_data =
     (let e1 = AList.update ''emby_person_id''
                 (case map_of emby_map (KStr tmdb_id) of None \<Rightarrow> PNone | Some v \<Rightarrow> v) person_data;
          e2 = set_default ''id'' (PStr tmdb_id) e1;
          e3 = set_default ''name'' (py_get e2 ''Name'') e2
      in set_default ''character'' (py_get e3 ''Role'') e3)"

text \<open>
  The loop; \<^verbatim>\<open>if not tmdb_id or tmdb_id == 'None': continue\<close> skips a record whose id is
  \<^verbatim>\<open>None\<close>, empty or the string \<^verbatim>\<open>'None'\<close>.
\<close>

fun adapt_cast_list :: "(hkey \<times> pyval) list \<Rightarrow> pydict list \<Rightarrow> exn + pydict list" where
  "adapt_cast_list emby_map [] = Inr []"
| "adapt_cast_list emby_map (person_data # rest) =
     bind_e (resolve_tmdb_id person_data) (\<lambda>tmdb_id.
       case tmdb_id of
         None \<Rightarrow> adapt_cast_list emby_map rest
       | Some t \<Rightarrow>
           if t = [] \<or> t = ''None'' then adapt_cast_list emby_map rest
           else bind_e (adapt_cast_list emby_map rest) (\<lambda>r.
                  Inr (adapt_entry emby_map t person_data # r)))"

section \<open>Effects: the trace of external calls\<close>

text \<open>
  Everything outside the process (the stop flag, the SQLite cursor, the identity store,
  the translation cache, the Douban and TMDb clients, the translator, the media server)
  is an oracle of the environment. Each call is appended to a trace together with the
  exception it raised, if any, and every oracle receives the trace so far, so that an
  answer may depend on all that was written or asked before it.
  A computation takes the trace and returns a value or an exception, and the trace:
  the trace survives an exception.
\<close>

datatype call =
    StopCheck
  | SelectByDouban pyval
  | SelectByImdb pyval
  | SelectActorMetadata string
  | CelebrityDetails pyval
  | FindPersonByExternalId pyval
  | UpsertPerson pydict
  | GetTranslation pyval
  | BatchTranslate "pyval list" pyval
  | SaveTranslation string pyval
  | LogError
  | UpdateEmbyItemCast "pydict list"
  | BatchUpdateEpisodesCast
  | RefreshEmbyItemMetadata
  | EvaluateQuality
  | SaveToFailedLog
  | SaveToProcessedLog
  | RemoveFromFailedLog
  | Commit

datatype event = Call call "exn option"

type_synonym trace = "event list"

type_synonym 'a m = "trace \<Rightarrow> (exn + 'a) \<times> trace"

definition return_m :: "'a \<Rightarrow> 'a m" where
  "return_m x = (\<lambda>tr. (Inr x, tr))"

definition raise_m :: "exn \<Rightarrow> 'a m" where
  "raise_m e = (\<lambda>tr. (Inl e, tr))"

definition lift_e :: "exn + 'a \<Rightarrow> 'a m" where
  "lift_e r = (\<lambda>tr. (r, tr))"

definition bind_m :: "'a m \<Rightarrow> ('a \<Rightarrow> 'b m) \<Rightarrow> 'b m" where
  "bind_m f g = (\<lambda>tr. case f tr of (Inl e, tr') \<Rightarrow> (Inl e, tr') | (Inr x, tr') \<Rightarrow> g x tr')"

definition ext :: "call \<Rightarrow> (trace \<Rightarrow> exn + 'a) \<Rightarrow> 'a m" where
  "ext c oracle =
     (\<lambda>tr. case oracle tr of
              Inl e \<Rightarrow> (Inl e, tr @ [Call c (Some e)])
            | Inr x \<Rightarrow> (Inr x, tr @ [Call c None]))"

text \<open>
  The environment of one \<^verbatim>\<open>MediaProcessor\<close>: its configuration, the names of the
  configuration keys (constants of a module that is not part of the sources), the
  attributes set by the constructor, the oracles, and the pure helpers of
  \<^verbatim>\<open>utils\<close> and \<^verbatim>\<open>actor_utils\<close>, which are parameters.
\<close>

record env =
  config :: pydict
  CONFIG_OPTION_MAX_ACTORS_TO_PROCESS :: string
  CONFIG_OPTION_AI_TRANSLATION_ENABLED :: string
  CONFIG_OPTION_AI_TRANSLATION_MODE :: string
  douban_api :: bool
  tmdb_api_key :: pyval
  ai_translator :: bool
  ai_translator_provider :: pyval
  stop_event_is_set :: "trace \<Rightarrow> bool"
  cursor_select_by_douban :: "trace \<Rightarrow> pyval \<Rightarrow> exn + pydict option"
  cursor_select_by_imdb :: "trace \<Rightarrow> pyval \<Rightarrow> exn + pydict option"
  cursor_select_actor_metadata :: "trace \<Rightarrow> string \<Rightarrow> exn + pydict option"
  upsert_person :: "trace \<Rightarrow> pydict \<Rightarrow> exn + unit"
  get_translation_from_db :: "trace \<Rightarrow> pyval \<Rightarrow> exn + pydict option"
  save_translation_to_db :: "trace \<Rightarrow> string \<Rightarrow> pyval \<Rightarrow> pyval \<Rightarrow> exn + unit"
  batch_translate :: "trace \<Rightarrow> pyval list \<Rightarrow> pyval \<Rightarrow> pyval \<Rightarrow> pyval \<Rightarrow> exn + pydict"
  celebrity_details :: "trace \<Rightarrow> pyval \<Rightarrow> exn + pyval"
  find_person_by_external_id :: "trace \<Rightarrow> pyval \<Rightarrow> pyval \<Rightarrow> exn + pyval"
  format_douban_cast :: "pydict list \<Rightarrow> pydict list"
  clean_character_name_static :: "pyval \<Rightarrow> pyval"
  contains_chinese :: "pyval \<Rightarrow> bool"
  select_best_role :: "pyval \<Rightarrow> pyval \<Rightarrow> pyval"
  format_and_complete_cast_list :: "pydict list \<Rightarrow> bool \<Rightarrow> pydict list"
  server_call :: "trace \<Rightarrow> call \<Rightarrow> exn + bool"

text \<open>\<^verbatim>\<open>is_stop_requested\<close>: reads the flag as it is at this moment.\<close>

definition is_stop_requested :: "env \<Rightarrow> bool m" where
  "is_stop_requested env = ext StopCheck (\<lambda>tr. Inr (stop_event_is_set env tr))"

section \<open>The configured cap\<close>

text \<open>
  \<^verbatim>\<open>int(x)\<close>. A string is stripped, may carry one sign, and is a run of decimal digits
  in which single underscores may separate digits; a float is truncated towards zero.
\<close>

definition is_digit :: "char \<Rightarrow> bool" where
  "is_digit c = (let n = (of_char c :: nat) in 48 \<le> n \<and> n \<le> 57)"

fun valid_digits :: "string \<Rightarrow> bool" where
  "valid_digits [] = False"
| "valid_digits [c] = is_digit c"
| "valid_digits (c # d # cs) =
     (is_digit c \<and> (if d = CHR ''_'' then valid_digits cs else valid_digits (d # cs)))"

fun digits_value :: "string \<Rightarrow> nat \<Rightarrow> nat" where
  "digits_value [] acc = acc"
| "digits_value (c # cs) acc = digits_value cs (acc * 10 + (of_char c - 48))"

definition py_int_of_str :: "string \<Rightarrow> int option" where
  "py_int_of_str s =
     (let t = py_strip s;
          neg = (t \<noteq> [] \<and> hd t = CHR ''-'');
          body = (if t \<noteq> [] \<and> (hd t = CHR ''-'' \<or> hd t = CHR ''+'') then tl t else t)
      in if valid_digits body
         then Some ((if neg then - 1 else 1) * int (digits_value (filter (\<lambda>c. c \<noteq> CHR ''_'') body) 0))
         else None)"

fun py_int :: "pyval \<Rightarrow> exn + int" where
  "py_int (PInt n) = Inr n"
| "py_int (PBool b) = Inr (if b then 1 else 0)"
| "py_int (PFloat m e) =
     Inr (if 0 \<le> e then m * 2 ^ nat e
          else if 0 \<le> m then m div 2 ^ nat (- e) else - ((- m) div 2 ^ nat (- e)))"
| "py_int (PStr s) = (case py_int_of_str s of Some n \<Rightarrow> Inr n | None \<Rightarrow> Inl ValueError)"
| "py_int v = Inl TypeError"

text \<open>
  The cap, computed twice in \<^verbatim>\<open>_process_cast_list_from_api\<close> by the same lines:
  \<^verbatim>\<open>config.get(KEY, 30)\<close>, \<^verbatim>\<open>int(...)\<close>, 30 when the value is not positive, 30 when
  \<^verbatim>\<open>int\<close> raises \<^verbatim>\<open>ValueError\<close> or \<^verbatim>\<open>TypeError\<close>; any other exception would
  propagate.
\<close>

definition max_actors_limit :: "env \<Rightarrow> exn + int" where
  "max_actors_limit env =
     (case py_int (py_get_default (config env) (CONFIG_OPTION_MAX_ACTORS_TO_PROCESS env) (PInt 30)) of
        Inr limit \<Rightarrow> Inr (if limit \<le> 0 then 30 else limit)
      | Inl e \<Rightarrow> if e = ValueError \<or> e = TypeError then Inr 30 else Inl e)"

section \<open>Match pass A: names\<close>

text \<open>
  \<^verbatim>\<open>d_actor.get(k, "").lower().strip()\<close>: a value that is not a string has no
  \<^verbatim>\<open>lower\<close>. \<^verbatim>\<open>str(l_actor.get(k) or "").lower().strip()\<close> never raises.
\<close>

definition douban_name :: "pydict \<Rightarrow> string \<Rightarrow> exn + string" where
  "douban_name d_actor k =
     (case py_get_default d_actor k (PStr []) of
        PStr s \<Rightarrow> Inr (py_strip (py_lower s))
      | _ \<Rightarrow> Inl AttributeError)"

definition local_name :: "pydict \<Rightarrow> string \<Rightarrow> string" where
  "local_name l_actor k =
     (let v = py_get l_actor k in py_strip (py_lower (py_str (if truthy v then v else PStr []))))"

text \<open>
  The test of the inner loop. The source has two branches (localized name, then
  original-language name) that differ only in the logged reason.
\<close>

definition is_match :: "string \<Rightarrow> string \<Rightarrow> pydict \<Rightarrow> bool" where
  "is_match douban_name_zh douban_name_en l_actor =
     (if douban_name_zh \<noteq> [] \<and>
         (douban_name_zh = local_name l_actor ''name'' \<or>
          douban_name_zh = local_name l_actor ''original_name'') then True
      else if douban_name_en \<noteq> [] \<and>
         (douban_name_en = local_name l_actor ''name'' \<or>
          douban_name_en = local_name l_actor ''original_name'') then True
      else False)"

text \<open>What a match writes into the local member.\<close>

definition merge_douban :: "env \<Rightarrow> pydict \<Rightarrow> pydict \<Rightarrow> pydict" where
  "merge_douban env d_actor l_actor =
     (let l1 = AList.update ''name'' (py_get d_actor ''Name'') l_actor;
          cleaned_douban_character = clean_character_name_static env (py_get d_actor ''Role'');
          l2 = AList.update ''character''
                 (select_best_role env (py_get l1 ''character'') cleaned_douban_character) l1
      in if truthy (py_get d_actor ''DoubanCelebrityId'')
         then AList.update ''douban_id'' (py_get d_actor ''DoubanCelebrityId'') l2
         else l2)"

text \<open>
  The inner loop over \<^verbatim>\<open>unmatched_local_actors\<close>: the first member that matches is
  updated and popped; the result is that member and the remaining pool.
\<close>

fun scan_unmatched :: "env \<Rightarrow> string \<Rightarrow> string \<Rightarrow> pydict \<Rightarrow> pydict list \<Rightarrow> (pydict \<times> pydict list) option" where
  "scan_unmatched env zh en d_actor [] = None"
| "scan_unmatched env zh en d_actor (l_actor # rest) =
     (if is_match zh en l_actor then Some (merge_douban env d_actor l_actor, rest)
      else (case scan_unmatched env zh en d_actor rest of
              None \<Rightarrow> None
            | Some (m, rest') \<Rightarrow> Some (m, l_actor # rest')))"

text \<open>
  The outer loop over the regional candidates, with the three lists it maintains:
  the pool \<^verbatim>\<open>unmatched_local_actors\<close>, \<^verbatim>\<open>merged_actors\<close> and
  \<^verbatim>\<open>unmatched_douban_actors\<close>.
\<close>

fun pass_a :: "env \<Rightarrow> pydict list \<Rightarrow> pydict list \<Rightarrow> pydict list \<Rightarrow> pydict list
    \<Rightarrow> exn + (pydict list \<times> pydict list \<times> pydict list)" where
  "pass_a env [] unmatched_local merged unmatched_douban =
     Inr (merged, unmatched_local, unmatched_douban)"
| "pass_a env (d_actor # ds) unmatched_local merged unmatched_douban =
     bind_e (douban_name d_actor ''Name'') (\<lambda>zh.
     bind_e (douban_name d_actor ''OriginalName'') (\<lambda>en.
       case scan_unmatched env zh en d_actor unmatched_local of
         Some (m, rest) \<Rightarrow> pass_a env ds rest (merged @ [m]) unmatched_douban
       | None \<Rightarrow> pass_a env ds unmatched_local merged (unmatched_douban @ [d_actor])))"

text \<open>
  \<^verbatim>\<open>final_cast_map\<close>: the dictionary comprehension over
  \<^verbatim>\<open>merged_actors + unmatched_local_actors\<close>, keyed by \<^verbatim>\<open>str(actor['id'])\<close>.
\<close>

fun build_final_cast_map :: "pydict list \<Rightarrow> (string \<times> pydict) list \<Rightarrow> (string \<times> pydict) list" where
  "build_final_cast_map [] m = m"
| "build_final_cast_map (actor # rest) m =
     (if truthy (py_get actor ''id'') \<and> py_str (py_get actor ''id'') \<noteq> ''None''
      then build_final_cast_map rest (AList.update (py_str (py_get actor ''id'')) actor m)
      else build_final_cast_map rest m)"

section \<open>Match passes B and C: the identity map\<close>

text \<open>
  \<^verbatim>\<open>_find_person_in_map_by_douban_id\<close> and \<^verbatim>\<open>_find_person_in_map_by_imdb_id\<close>: no
  query for a falsy id, and a \<^verbatim>\<open>sqlite3.Error\<close> of the query is logged and answered
  with \<^verbatim>\<open>None\<close>. A row is a dictionary of its columns.
\<close>

definition catch_sqlite :: "pydict option m \<Rightarrow> pydict option m" where
  "catch_sqlite f =
     (\<lambda>tr. case f tr of
              (Inl e, tr') \<Rightarrow>
                if e = SqliteError then (Inr None, tr' @ [Call LogError None]) else (Inl e, tr')
            | (Inr x, tr') \<Rightarrow> (Inr x, tr'))"

definition find_person_in_map_by_douban_id :: "env \<Rightarrow> pyval \<Rightarrow> pydict option m" where
  "find_person_in_map_by_douban_id env douban_id =
     (if \<not> truthy douban_id then return_m None
      else catch_sqlite
             (ext (SelectByDouban douban_id) (\<lambda>tr. cursor_select_by_douban env tr douban_id)))"

definition find_person_in_map_by_imdb_id :: "env \<Rightarrow> pyval \<Rightarrow> pydict option m" where
  "find_person_in_map_by_imdb_id env imdb_id =
     (if \<not> truthy imdb_id then return_m None
      else catch_sqlite
             (ext (SelectByImdb imdb_id) (\<lambda>tr. cursor_select_by_imdb env tr imdb_id)))"

text \<open>
  \<^verbatim>\<open>_get_actor_metadata_from_cache\<close> has no handler: an error of its query propagates.
  The caller continues with \<^verbatim>\<open>... or {}\<close>.
\<close>

definition get_actor_metadata_from_cache :: "env \<Rightarrow> string \<Rightarrow> pydict option m" where
  "get_actor_metadata_from_cache env tmdb_id =
     (if tmdb_id = [] then return_m None
      else ext (SelectActorMetadata tmdb_id) (\<lambda>tr. cursor_select_actor_metadata env tr tmdb_id))"

definition or_empty :: "pydict option \<Rightarrow> pydict" where
  "or_empty r = (case r of None \<Rightarrow> [] | Some d \<Rightarrow> d)"

text \<open>\<^verbatim>\<open>row[k]\<close>: a missing column raises.\<close>

definition row_item :: "pydict \<Rightarrow> string \<Rightarrow> exn + pyval" where
  "row_item row k = (case map_of row k of None \<Rightarrow> Inl IndexError | Some v \<Rightarrow> Inr v)"

text \<open>\<^verbatim>\<open>entry and entry["tmdb_person_id"]\<close>, as the id it yields when truthy.\<close>

definition entry_tmdb_id :: "pydict option \<Rightarrow> exn + pyval option" where
  "entry_tmdb_id entry =
     (case entry of
        None \<Rightarrow> Inr None
      | Some row \<Rightarrow>
          if row = [] then Inr None
          else bind_e (row_item row ''tmdb_person_id'') (\<lambda>v.
                 Inr (if truthy v then Some v else None)))"

text \<open>The member synthesized for a regional candidate that resolved to a new primary id.\<close>

definition new_actor_entry :: "string \<Rightarrow> pydict \<Rightarrow> pydict \<Rightarrow> pyval \<Rightarrow> pyval \<Rightarrow> pydict" where
  "new_actor_entry tmdb_id d_actor cached_metadata imdb_id d_douban_id =
     [(''id'', PStr tmdb_id),
      (''name'', py_get d_actor ''Name''),
      (''original_name'',
         (if truthy (py_get cached_metadata ''original_name'')
          then py_get cached_metadata ''original_name'' else py_get d_actor ''OriginalName'')),
      (''character'', py_get d_actor ''Role''),
      (''adult'', py_get_default cached_metadata ''adult'' (PBool False)),
      (''gender'', py_get_default cached_metadata ''gender'' (PInt 0)),
      (''known_for_department'', PStr ''Acting''),
      (''popularity'', py_get_default cached_metadata ''popularity'' (PFloat 0 0)),
      (''profile_path'', py_get cached_metadata ''profile_path''),
      (''cast_id'', PNone),
      (''credit_id'', PNone),
      (''order'', PInt 999),
      (''imdb_id'', imdb_id),
      (''douban_id'', d_douban_id),
      (''_is_newly_added'', PBool True)]"

text \<open>
  \<^verbatim>\<open>if tmdb_id not in final_cast_map: ... final_cast_map[tmdb_id] = new_actor_entry\<close>,
  the block the three resolution paths share.
\<close>

definition add_new_actor :: "env \<Rightarrow> string \<Rightarrow> pydict \<Rightarrow> pyval \<Rightarrow> pyval \<Rightarrow> (string \<times> pydict) list
    \<Rightarrow> (string \<times> pydict) list m" where
  "add_new_actor env tmdb_id d_actor imdb_id d_douban_id final_cast_map =
     bind_m (get_actor_metadata_from_cache env tmdb_id) (\<lambda>r.
       return_m (AList.update tmdb_id
                   (new_actor_entry tmdb_id d_actor (or_empty r) imdb_id d_douban_id)
                   final_cast_map))"

text \<open>
  One iteration of pass B after its stop check: the candidate's regional id is looked
  up in the identity map. The result is the map and \<^verbatim>\<open>match_found\<close>.
\<close>

definition pass_b_step :: "env \<Rightarrow> pydict \<Rightarrow> (string \<times> pydict) list \<Rightarrow> ((string \<times> pydict) list \<times> bool) m" where
  "pass_b_step env d_actor final_cast_map =
     (let d_douban_id = py_get d_actor ''DoubanCelebrityId'' in
      if truthy d_douban_id then
        bind_m (find_person_in_map_by_douban_id env d_douban_id) (\<lambda>entry.
        bind_m (lift_e (entry_tmdb_id entry)) (\<lambda>tid.
          case tid of
            None \<Rightarrow> return_m (final_cast_map, False)
          | Some v \<Rightarrow>
              let tmdb_id_from_map = py_str v in
              if map_of final_cast_map tmdb_id_from_map = None then
                bind_m (add_new_actor env tmdb_id_from_map d_actor
                          (if map_of (or_empty entry) ''imdb_id'' \<noteq> None
                           then py_get (or_empty entry) ''imdb_id'' else PNone)
                          d_douban_id final_cast_map) (\<lambda>m.
                  return_m (m, True))
              else return_m (final_cast_map, True)))
      else return_m (final_cast_map, False))"

fun pass_b :: "env \<Rightarrow> pydict list \<Rightarrow> (string \<times> pydict) list \<Rightarrow> pydict list
    \<Rightarrow> ((string \<times> pydict) list \<times> pydict list) m" where
  "pass_b env [] final_cast_map still_unmatched = return_m (final_cast_map, still_unmatched)"
| "pass_b env (d_actor # ds) final_cast_map still_unmatched =
     bind_m (is_stop_requested env) (\<lambda>stop.
       if stop then raise_m InterruptedError
       else bind_m (pass_b_step env d_actor final_cast_map) (\<lambda>(m, match_found).
              pass_b env ds m (if match_found then still_unmatched else still_unmatched @ [d_actor])))"

text \<open>
  Reading the external id out of the regional detail. The test
  \<^verbatim>\<open>details and not details.get("error")\<close> is outside the \<^verbatim>\<open>try\<close>; inside it any
  exception leaves \<^verbatim>\<open>d_imdb_id\<close> at \<^verbatim>\<open>None\<close>. The label is
  \<^verbatim>\<open>'IMDb'\<close> followed by two CJK characters, here in UTF-8.
\<close>

definition imdb_label :: string where
  "imdb_label = ''IMDb'' @ [char_of (0xE7::nat), char_of (0xBC::nat), char_of (0x96::nat),
                            char_of (0xE5::nat), char_of (0x8F::nat), char_of (0xB7::nat)]"

fun find_imdb :: "pyval list \<Rightarrow> pyval" where
  "find_imdb [] = PNone"
| "find_imdb (item # rest) =
     (case item of
        PList [a, b] \<Rightarrow> if a = PStr imdb_label then b else find_imdb rest
      | _ \<Rightarrow> find_imdb rest)"

definition parse_imdb_id :: "pyval \<Rightarrow> pyval" where
  "parse_imdb_id details =
     (case bind_e (py_val_get_default details ''extra'' (PDict []))
             (\<lambda>extra. py_val_get_default extra ''info'' (PList [])) of
        Inl e \<Rightarrow> PNone
      | Inr (PList info_list) \<Rightarrow> find_imdb info_list
      | Inr _ \<Rightarrow> PNone)"

definition extract_imdb_id :: "pyval \<Rightarrow> exn + pyval" where
  "extract_imdb_id details =
     (if truthy details then
        bind_e (py_val_get details ''error'') (\<lambda>err.
          Inr (if truthy err then PNone else parse_imdb_id details))
      else Inr PNone)"

text \<open>\<^verbatim>\<open>a or b\<close>.\<close>

definition py_or :: "pyval \<Rightarrow> pyval \<Rightarrow> pyval" where
  "py_or a b = (if truthy a then a else b)"

definition upsert :: "env \<Rightarrow> pydict \<Rightarrow> unit m" where
  "upsert env person = ext (UpsertPerson person) (\<lambda>tr. upsert_person env tr person)"

text \<open>Pass C, first path: the external id is already in the identity map.\<close>

definition pass_c_via_map :: "env \<Rightarrow> pydict \<Rightarrow> pyval \<Rightarrow> pyval \<Rightarrow> (string \<times> pydict) list
    \<Rightarrow> ((string \<times> pydict) list \<times> bool) m" where
  "pass_c_via_map env d_actor d_douban_id d_imdb_id final_cast_map =
     bind_m (find_person_in_map_by_imdb_id env d_imdb_id) (\<lambda>entry_from_map.
     bind_m (lift_e (entry_tmdb_id entry_from_map)) (\<lambda>tid.
       case tid of
         None \<Rightarrow> return_m (final_cast_map, False)
       | Some v \<Rightarrow>
           let tmdb_id_from_map = py_str v in
           bind_m (if map_of final_cast_map tmdb_id_from_map = None
                   then add_new_actor env tmdb_id_from_map d_actor d_imdb_id d_douban_id final_cast_map
                   else return_m final_cast_map) (\<lambda>m.
           bind_m (upsert env
                     [(''tmdb_id'', PStr tmdb_id_from_map),
                      (''imdb_id'', d_imdb_id),
                      (''douban_id'', d_douban_id),
                      (''name'', py_or (py_get d_actor ''Name'')
                                   (if map_of (or_empty entry_from_map) ''primary_name'' \<noteq> None
                                    then py_get (or_empty entry_from_map) ''primary_name''
                                    else PNone))]) (\<lambda>_.
             return_m (m, True)))))"

text \<open>Pass C, second path: the primary provider is asked for the external id.\<close>

definition pass_c_via_tmdb :: "env \<Rightarrow> pydict \<Rightarrow> pyval \<Rightarrow> pyval \<Rightarrow> (string \<times> pydict) list
    \<Rightarrow> ((string \<times> pydict) list \<times> bool) m" where
  "pass_c_via_tmdb env d_actor d_douban_id d_imdb_id final_cast_map =
     bind_m (is_stop_requested env) (\<lambda>stop.
       if stop then raise_m InterruptedError
       else
         bind_m (ext (FindPersonByExternalId d_imdb_id)
                   (\<lambda>tr. find_person_by_external_id env tr d_imdb_id (tmdb_api_key env)))
           (\<lambda>person_from_tmdb.
         if truthy person_from_tmdb then
           bind_m (lift_e (py_val_get person_from_tmdb ''id'')) (\<lambda>pid.
             if truthy pid then
               let tmdb_id_from_find = py_str pid in
               if map_of final_cast_map tmdb_id_from_find = None then
                 bind_m (add_new_actor env tmdb_id_from_find d_actor d_imdb_id d_douban_id
                           final_cast_map) (\<lambda>m.
                 bind_m (upsert env
                           [(''tmdb_id'', PStr tmdb_id_from_find),
                            (''imdb_id'', d_imdb_id),
                            (''douban_id'', d_douban_id),
                            (''name'', py_get d_actor ''Name'')]) (\<lambda>_.
                   return_m (m, True)))
               else return_m (final_cast_map, True)
             else return_m (final_cast_map, False))
         else return_m (final_cast_map, False)))"

text \<open>
  One iteration of pass C after its stop check and its cap check. The pause
  \<^verbatim>\<open>time.sleep(0.3)\<close> after the regional request has no counterpart here.
\<close>

definition pass_c_step :: "env \<Rightarrow> pydict \<Rightarrow> (string \<times> pydict) list \<Rightarrow> ((string \<times> pydict) list \<times> bool) m" where
  "pass_c_step env d_actor final_cast_map =
     (let d_douban_id = py_get d_actor ''DoubanCelebrityId'' in
      if truthy d_douban_id \<and> douban_api env \<and> truthy (tmdb_api_key env) then
        bind_m (is_stop_requested env) (\<lambda>stop.
          if stop then raise_m InterruptedError
          else
            bind_m (ext (CelebrityDetails d_douban_id) (\<lambda>tr. celebrity_details env tr d_douban_id))
              (\<lambda>details.
            bind_m (lift_e (extract_imdb_id details)) (\<lambda>d_imdb_id.
              if truthy d_imdb_id then
                bind_m (pass_c_via_map env d_actor d_douban_id d_imdb_id final_cast_map)
                  (\<lambda>(m, match_found).
                    if match_found then return_m (m, True)
                    else pass_c_via_tmdb env d_actor d_douban_id d_imdb_id m)
              else return_m (final_cast_map, False))))
      else return_m (final_cast_map, False))"

fun pass_c :: "env \<Rightarrow> int \<Rightarrow> pydict list \<Rightarrow> (string \<times> pydict) list \<Rightarrow> pydict list
    \<Rightarrow> ((string \<times> pydict) list \<times> pydict list) m" where
  "pass_c env limit [] final_cast_map still_unmatched_final =
     return_m (final_cast_map, still_unmatched_final)"
| "pass_c env limit (d_actor # ds) final_cast_map still_unmatched_final =
     bind_m (is_stop_requested env) (\<lambda>stop.
       if stop then raise_m InterruptedError
       else if limit \<le> int (length final_cast_map)
         then return_m (final_cast_map, still_unmatched_final @ (d_actor # ds))
       else bind_m (pass_c_step env d_actor final_cast_map) (\<lambda>(m, match_found).
              pass_c env limit ds m
                (if match_found then still_unmatched_final else still_unmatched_final @ [d_actor])))"

text \<open>
  The gate between pass A and the supplementing passes:
  \<^verbatim>\<open>if current_actor_count >= limit: (log only) else: pass B; pass C\<close>.
\<close>

definition supplement :: "env \<Rightarrow> int \<Rightarrow> pydict list \<Rightarrow> (string \<times> pydict) list
    \<Rightarrow> ((string \<times> pydict) list \<times> pydict list) m" where
  "supplement env limit unmatched_douban_actors final_cast_map =
     (if limit \<le> int (length final_cast_map) then return_m (final_cast_map, unmatched_douban_actors)
      else bind_m (pass_b env unmatched_douban_actors final_cast_map []) (\<lambda>(m, still_unmatched).
             pass_c env limit still_unmatched m []))"

section \<open>Write-back, truncation, translation, formatting\<close>

text \<open>The full write-back: one upsert per member of the working set, in its order.\<close>

definition write_back_row :: "pydict \<Rightarrow> pydict" where
  "write_back_row actor_data =
     [(''tmdb_id'', py_get actor_data ''id''),
      (''name'', py_get actor_data ''name''),
      (''imdb_id'', py_get actor_data ''imdb_id''),
      (''douban_id'', py_get actor_data ''douban_id'')]"

fun full_write_back :: "env \<Rightarrow> pydict list \<Rightarrow> unit m" where
  "full_write_back env [] = return_m ()"
| "full_write_back env (actor_data # rest) =
     bind_m (upsert env (write_back_row actor_data)) (\<lambda>_. full_write_back env rest)"

text \<open>
  The sort key of the truncation:
  \<^verbatim>\<open>x.get('order') if x.get('order') is not None and x.get('order') >= 0 else 999\<close>.
  Comparing a string or a container with \<^verbatim>\<open>0\<close> raises.
\<close>

definition truncation_key :: "pydict \<Rightarrow> exn + rat" where
  "truncation_key x =
     (case py_get x ''order'' of
        PNone \<Rightarrow> Inr 999
      | v \<Rightarrow> (case numeric_value v of
                None \<Rightarrow> Inl TypeError
              | Some q \<Rightarrow> Inr (if 0 \<le> q then q else 999)))"

fun truncation_keys :: "pydict list \<Rightarrow> exn + unit" where
  "truncation_keys [] = Inr ()"
| "truncation_keys (x # xs) = bind_e (truncation_key x) (\<lambda>_. truncation_keys xs)"

definition truncate_cast :: "int \<Rightarrow> pydict list \<Rightarrow> exn + pydict list" where
  "truncate_cast limit current_cast_list =
     (if limit < int (length current_cast_list) then
        bind_e (truncation_keys current_cast_list) (\<lambda>_.
          Inr (take (nat limit)
                 (sort_key (\<lambda>x. case truncation_key x of Inr q \<Rightarrow> q | Inl e \<Rightarrow> 999)
                    current_cast_list)))
      else Inr current_cast_list)"

text \<open>
  The translation phase. \<^verbatim>\<open>texts_to_collect\<close> and \<^verbatim>\<open>texts_to_send_to_api\<close> are
  Python sets, here lists without repeated keys in insertion order (the order in which
  Python walks a set is not specified; nothing below depends on it).
  \<^verbatim>\<open>translation_cache\<close> is a dictionary keyed by the text.
\<close>

definition set_add :: "pyval \<Rightarrow> (hkey \<times> pyval) list \<Rightarrow> exn + (hkey \<times> pyval) list" where
  "set_add v s = bind_e (py_hash_key v) (\<lambda>k. Inr (if map_of s k = None then s @ [(k, v)] else s))"

fun collect_texts :: "env \<Rightarrow> pydict list \<Rightarrow> (hkey \<times> pyval) list \<Rightarrow> exn + (hkey \<times> pyval) list" where
  "collect_texts env [] s = Inr s"
| "collect_texts env (actor # rest) s =
     (let name = py_get actor ''name''; character = py_get actor ''character'' in
      bind_e (if truthy name \<and> \<not> contains_chinese env name then set_add name s else Inr s) (\<lambda>s1.
      bind_e (if truthy character then
                (let cleaned_character = clean_character_name_static env character in
                 if truthy cleaned_character \<and> \<not> contains_chinese env cleaned_character
                 then set_add cleaned_character s1 else Inr s1)
              else Inr s1) (\<lambda>s2.
        collect_texts env rest s2)))"

text \<open>Cached mode: one cache read per collected text; a miss goes to the translator.\<close>

fun check_cache :: "env \<Rightarrow> (hkey \<times> pyval) list \<Rightarrow> (hkey \<times> pyval) list \<Rightarrow> (hkey \<times> pyval) list
    \<Rightarrow> ((hkey \<times> pyval) list \<times> (hkey \<times> pyval) list) m" where
  "check_cache env [] translation_cache texts_to_send = return_m (translation_cache, texts_to_send)"
| "check_cache env (kt # rest) translation_cache texts_to_send =
     bind_m (ext (GetTranslation (snd kt)) (\<lambda>tr. get_translation_from_db env tr (snd kt)))
       (\<lambda>cached_entry.
         if cached_entry \<noteq> None \<and> cached_entry \<noteq> Some [] then
           check_cache env rest
             (AList.update (fst kt) (py_get (or_empty cached_entry) ''translated_text'') translation_cache)
             texts_to_send
         else check_cache env rest translation_cache (texts_to_send @ [kt]))"

fun save_translations :: "env \<Rightarrow> pydict \<Rightarrow> unit m" where
  "save_translations env [] = return_m ()"
| "save_translations env (ot # rest) =
     bind_m (ext (SaveTranslation (fst ot) (snd ot))
               (\<lambda>tr. save_translation_to_db env tr (fst ot) (snd ot) (ai_translator_provider env)))
       (\<lambda>_. save_translations env rest)"

definition cache_update :: "(hkey \<times> pyval) list \<Rightarrow> pydict \<Rightarrow> (hkey \<times> pyval) list" where
  "cache_update translation_cache translation_map_from_api =
     foldl (\<lambda>c kv. AList.update (KStr (fst kv)) (snd kv) c) translation_cache translation_map_from_api"

definition translation_mode :: "env \<Rightarrow> pyval" where
  "translation_mode env =
     py_get_default (config env) (CONFIG_OPTION_AI_TRANSLATION_MODE env) (PStr ''fast'')"

text \<open>The body of the \<^verbatim>\<open>try\<close>; its value is \<^verbatim>\<open>translation_cache\<close>.\<close>

definition translation_try :: "env \<Rightarrow> pydict \<Rightarrow> pydict list \<Rightarrow> (hkey \<times> pyval) list m" where
  "translation_try env item_details_from_emby cast_to_process =
     bind_m (lift_e (collect_texts env cast_to_process [])) (\<lambda>texts_to_collect.
     bind_m (if translation_mode env = PStr ''fast''
             then check_cache env texts_to_collect [] []
             else return_m ([], texts_to_collect)) (\<lambda>(translation_cache, texts_to_send_to_api).
       if texts_to_send_to_api \<noteq> [] then
         bind_m (ext (BatchTranslate (map snd texts_to_send_to_api) (translation_mode env))
                   (\<lambda>tr. batch_translate env tr (map snd texts_to_send_to_api) (translation_mode env)
                           (py_get item_details_from_emby ''Name'')
                           (py_get item_details_from_emby ''ProductionYear'')))
           (\<lambda>translation_map_from_api.
             if translation_map_from_api \<noteq> [] then
               bind_m (if translation_mode env = PStr ''fast''
                       then save_translations env translation_map_from_api
                       else return_m ()) (\<lambda>_.
                 return_m (cache_update translation_cache translation_map_from_api))
             else return_m translation_cache)
       else return_m translation_cache))"

text \<open>\<^verbatim>\<open>translation_cache.get(x, x)\<close>: the key is hashed.\<close>

definition cache_get :: "(hkey \<times> pyval) list \<Rightarrow> pyval \<Rightarrow> exn + pyval" where
  "cache_get translation_cache x =
     bind_e (py_hash_key x) (\<lambda>k. Inr (case map_of translation_cache k of None \<Rightarrow> x | Some v \<Rightarrow> v))"

text \<open>The back-fill, run only when the \<^verbatim>\<open>try\<close> ended without an exception.\<close>

definition backfill_actor :: "env \<Rightarrow> (hkey \<times> pyval) list \<Rightarrow> pydict \<Rightarrow> exn + pydict" where
  "backfill_actor env translation_cache actor =
     bind_e (cache_get translation_cache (py_get actor ''name'')) (\<lambda>translated_name.
       let a1 = AList.update ''name'' translated_name actor;
           original_character = py_get a1 ''character'' in
       if truthy original_character then
         bind_e (cache_get translation_cache (clean_character_name_static env original_character))
           (\<lambda>translated_character. Inr (AList.update ''character'' translated_character a1))
       else Inr (AList.update ''character'' (PStr []) a1))"

fun backfill :: "env \<Rightarrow> (hkey \<times> pyval) list \<Rightarrow> pydict list \<Rightarrow> exn + pydict list" where
  "backfill env translation_cache [] = Inr []"
| "backfill env translation_cache (actor # rest) =
     bind_e (backfill_actor env translation_cache actor) (\<lambda>a.
     bind_e (backfill env translation_cache rest) (\<lambda>r. Inr (a # r)))"

definition ai_translation_enabled :: "env \<Rightarrow> bool" where
  "ai_translation_enabled env =
     (ai_translator env \<and>
      truthy (py_get_default (config env) (CONFIG_OPTION_AI_TRANSLATION_ENABLED env) (PBool False)))"

text \<open>
  \<^verbatim>\<open>try: ... ai_translation_succeeded = True  except Exception: (log)\<close>, then the
  back-fill or, after a failure, nothing.
\<close>

definition translate_phase :: "env \<Rightarrow> pydict \<Rightarrow> pydict list \<Rightarrow> pydict list m" where
  "translate_phase env item_details_from_emby cast_to_process =
     (if ai_translation_enabled env then
        (\<lambda>tr. case translation_try env item_details_from_emby cast_to_process tr of
                 (Inl e, tr') \<Rightarrow> (Inr cast_to_process, tr' @ [Call LogError None])
               | (Inr translation_cache, tr') \<Rightarrow> (backfill env translation_cache cast_to_process, tr'))
      else return_m cast_to_process)"

text \<open>\<^verbatim>\<open>"Animation" in item_details_from_emby.get("Genres", [])\<close>.\<close>

fun is_infix :: "string \<Rightarrow> string \<Rightarrow> bool" where
  "is_infix s [] = (s = [])"
| "is_infix s (c # cs) = (take (length s) (c # cs) = s \<or> is_infix s cs)"

definition is_animation :: "pydict \<Rightarrow> exn + bool" where
  "is_animation item_details_from_emby =
     (case py_get_default item_details_from_emby ''Genres'' (PList []) of
        PList xs \<Rightarrow> Inr (PStr ''Animation'' \<in> set xs)
      | PDict d \<Rightarrow> Inr (''Animation'' \<in> set (map fst d))
      | PStr s \<Rightarrow> Inr (is_infix ''Animation'' s)
      | _ \<Rightarrow> Inl TypeError)"

definition attach_provider_ids :: "pydict \<Rightarrow> pydict" where
  "attach_provider_ids actor =
     AList.update ''provider_ids''
       (PDict [(''Tmdb'', PStr (py_str (py_get actor ''id''))),
               (''Imdb'', py_get actor ''imdb_id''),
               (''Douban'', py_get actor ''douban_id'')]) actor"

section \<open>The reconciliation\<close>

text \<open>
  \<^verbatim>\<open>_process_cast_list_from_api\<close> in two halves: up to the end of the matching passes
  (its value is the working set, \<^verbatim>\<open>list(final_cast_map.values())\<close>, and the regional
  candidates left over), and from the full write-back to the returned list.
\<close>

definition matching :: "env \<Rightarrow> pydict list \<Rightarrow> pydict list \<Rightarrow> pydict list \<Rightarrow> (pydict list \<times> pydict list) m" where
  "matching env tmdb_cast_people emby_cast_people douban_cast_list =
     bind_m (lift_e (build_emby_map emby_cast_people [])) (\<lambda>emby_tmdb_to_person_id_map.
     bind_m (lift_e (adapt_cast_list emby_tmdb_to_person_id_map tmdb_cast_people)) (\<lambda>local_cast_list.
     bind_m (lift_e (pass_a env (format_douban_cast env douban_cast_list) local_cast_list [] []))
       (\<lambda>(merged_actors, unmatched_local_actors, unmatched_douban_actors).
     bind_m (lift_e (max_actors_limit env)) (\<lambda>limit.
     bind_m (supplement env limit unmatched_douban_actors
               (build_final_cast_map (merged_actors @ unmatched_local_actors) []))
       (\<lambda>(final_cast_map, unmatched).
         return_m (map snd final_cast_map, unmatched))))))"

definition finishing :: "env \<Rightarrow> pydict \<Rightarrow> pydict list \<Rightarrow> pydict list m" where
  "finishing env item_details_from_emby current_cast_list =
     bind_m (full_write_back env current_cast_list) (\<lambda>_.
     bind_m (lift_e (max_actors_limit env)) (\<lambda>limit.
     bind_m (lift_e (truncate_cast limit current_cast_list)) (\<lambda>cast_to_process.
     bind_m (translate_phase env item_details_from_emby cast_to_process) (\<lambda>translated.
     bind_m (lift_e (is_animation item_details_from_emby)) (\<lambda>animation.
       return_m (map attach_provider_ids
                   (format_and_complete_cast_list env translated animation)))))))"

definition process_cast_list_from_api :: "env \<Rightarrow> pydict list \<Rightarrow> pydict list \<Rightarrow> pydict list \<Rightarrow> pydict
    \<Rightarrow> pydict list m" where
  "process_cast_list_from_api env tmdb_cast_people emby_cast_people douban_cast_list
     item_details_from_emby =
     bind_m (matching env tmdb_cast_people emby_cast_people douban_cast_list) (\<lambda>(current_cast_list, _).
       finishing env item_details_from_emby current_cast_list)"

section \<open>The session\<close>

text \<open>
  \<^verbatim>\<open>_process_item_core_logic_api_version\<close> from the point where the three inputs of the
  reconciliation are at hand: the authoritative source, the enriched snapshot and the
  regional cast. (The stages that fetch them only read: the enrichment runs a
  \<^verbatim>\<open>SELECT\<close> and asks the server, and none of them checks the stop flag.)
  The calls to the server, to the log tables and to \<^verbatim>\<open>commit\<close> go through one
  oracle; the score is compared with the threshold there, since both are floats.
  The result is the boolean the function returns.
\<close>

definition server :: "env \<Rightarrow> call \<Rightarrow> bool m" where
  "server env c = ext c (\<lambda>tr. server_call env tr c)"

definition cast_for_emby_handler :: "pydict list \<Rightarrow> pydict list" where
  "cast_for_emby_handler final_processed_cast =
     map (\<lambda>actor. [(''name'', py_get actor ''name''),
                    (''character'', py_get actor ''character''),
                    (''emby_person_id'', py_get actor ''emby_person_id''),
                    (''provider_ids'', py_get actor ''provider_ids'')]) final_processed_cast"

definition session_body :: "env \<Rightarrow> pydict \<Rightarrow> pydict list \<Rightarrow> pydict list \<Rightarrow> pydict list \<Rightarrow> bool m" where
  "session_body env item_details_from_emby authoritative_cast_source enriched_emby_cast
     douban_cast_raw =
     bind_m (process_cast_list_from_api env authoritative_cast_source enriched_emby_cast
               douban_cast_raw item_details_from_emby) (\<lambda>final_processed_cast.
     bind_m (server env (UpdateEmbyItemCast (cast_for_emby_handler final_processed_cast)))
       (\<lambda>update_success.
     bind_m (if py_get item_details_from_emby ''Type'' = PStr ''Series'' \<and> update_success
             then server env BatchUpdateEpisodesCast else return_m True) (\<lambda>_.
       if \<not> update_success then
         bind_m (server env SaveToFailedLog) (\<lambda>_.
         bind_m (server env Commit) (\<lambda>_. return_m False))
       else
         bind_m (server env RefreshEmbyItemMetadata) (\<lambda>_.
         bind_m (server env EvaluateQuality) (\<lambda>below_threshold.
         bind_m (if below_threshold then server env SaveToFailedLog
                 else bind_m (server env SaveToProcessedLog) (\<lambda>_.
                        server env RemoveFromFailedLog)) (\<lambda>_.
         bind_m (server env Commit) (\<lambda>_. return_m True)))))))"

text \<open>
  The handlers: \<^verbatim>\<open>except (ValueError, InterruptedError)\<close> logs a warning and returns
  \<^verbatim>\<open>False\<close>; \<^verbatim>\<open>except Exception\<close> writes the failed log (an error of that write is
  swallowed) and returns \<^verbatim>\<open>False\<close>. An item without a TMDb id is refused at once.
\<close>

definition process_item_core_logic_api_version :: "env \<Rightarrow> pydict \<Rightarrow> pydict list \<Rightarrow> pydict list
    \<Rightarrow> pydict list \<Rightarrow> bool m" where
  "process_item_core_logic_api_version env item_details_from_emby authoritative_cast_source
     enriched_emby_cast douban_cast_raw =
     bind_m (lift_e (provider_tmdb item_details_from_emby)) (\<lambda>tmdb_id.
       if \<not> truthy tmdb_id then return_m False
       else
         (\<lambda>tr. case session_body env item_details_from_emby authoritative_cast_source
                       enriched_emby_cast douban_cast_raw tr of
                  (Inr ok, tr') \<Rightarrow> (Inr ok, tr')
                | (Inl e, tr') \<Rightarrow>
                    if e = ValueError \<or> e = InterruptedError then (Inr False, tr')
                    else (Inr False, snd (server env SaveToFailedLog tr'))))"

section \<open>Notions used in the statements\<close>

text \<open>
  The calls of a trace fall into kinds: the stop check, the lookups made for a regional
  candidate (identity map, cached metadata, regional detail, primary-provider search),
  the identity-store upsert, the reads and writes of the translation cache, the
  translator, the log, and the calls of the session.
\<close>

datatype kind = KStop | KLookup | KUpsert | KCacheRead | KCacheWrite | KTranslate | KLog | KServer

fun call_kind :: "call \<Rightarrow> kind" where
  "call_kind StopCheck = KStop"
| "call_kind (SelectByDouban v) = KLookup"
| "call_kind (SelectByImdb v) = KLookup"
| "call_kind (SelectActorMetadata s) = KLookup"
| "call_kind (CelebrityDetails v) = KLookup"
| "call_kind (FindPersonByExternalId v) = KLookup"
| "call_kind (UpsertPerson p) = KUpsert"
| "call_kind (GetTranslation v) = KCacheRead"
| "call_kind (BatchTranslate ts mo) = KTranslate"
| "call_kind (SaveTranslation a b) = KCacheWrite"
| "call_kind LogError = KLog"
| "call_kind c = KServer"

fun event_kind :: "event \<Rightarrow> kind" where
  "event_kind (Call c r) = call_kind c"

fun raised :: "event \<Rightarrow> bool" where
  "raised (Call c r) = (r \<noteq> None)"

definition emits :: "(event \<Rightarrow> bool) \<Rightarrow> 'a m \<Rightarrow> bool" where
  "emits P f = (\<forall>tr. \<exists>new. snd (f tr) = tr @ new \<and> list_all P new)"

definition matching_event :: "event \<Rightarrow> bool" where
  "matching_event e = (event_kind e \<in> {KStop, KLookup, KUpsert, KLog})"

definition translation_event :: "event \<Rightarrow> bool" where
  "translation_event e = (event_kind e \<in> {KCacheRead, KCacheWrite, KTranslate, KLog})"

definition finishing_event :: "event \<Rightarrow> bool" where
  "finishing_event e = (event_kind e \<in> {KUpsert, KCacheRead, KCacheWrite, KTranslate, KLog})"

definition upsert_event :: "pydict \<Rightarrow> event" where
  "upsert_event actor_data = Call (UpsertPerson (write_back_row actor_data)) None"

text \<open>
  For the aggregation of a series: the key and dictionary of a cast entry that has a usable
  id, the entries of a listing in order, the two listings themselves, and the entry the
  aggregation keeps for a key.
\<close>

definition id_key :: "pyval \<Rightarrow> (hkey \<times> pydict) option" where
  "id_key actor =
     (case actor of
        PDict a \<Rightarrow>
          (if truthy (py_get a ''id'') then
             (case py_hash_key (py_get a ''id'') of Inr k \<Rightarrow> Some (k, a) | Inl e \<Rightarrow> None)
           else None)
      | _ \<Rightarrow> None)"

fun keyed :: "pyval list \<Rightarrow> (hkey \<times> pydict) list" where
  "keyed [] = []"
| "keyed (x # xs) = (case id_key x of None \<Rightarrow> keyed xs | Some p \<Rightarrow> p # keyed xs)"

definition main_cast :: "pydict \<Rightarrow> pyval list" where
  "main_cast series_data =
     (case bind_e (py_val_get_default (py_get_default series_data ''credits'' (PDict [])) ''cast'' (PList []))
             py_iter of
        Inr xs \<Rightarrow> xs | Inl e \<Rightarrow> [])"

definition episode_actors :: "pydict \<Rightarrow> pyval list" where
  "episode_actors episode_data =
     (let credits_data = py_get_default episode_data ''credits'' (PDict []) in
      case bind_e (py_val_get_default credits_data ''cast'' (PList [])) (\<lambda>c.
           bind_e (py_val_get_default credits_data ''guest_stars'' (PList [])) (\<lambda>g.
           bind_e (py_concat c g) py_iter)) of
        Inr xs \<Rightarrow> xs | Inl e \<Rightarrow> [])"

definition aggregated_entry :: "pydict \<Rightarrow> pydict list \<Rightarrow> hkey \<Rightarrow> pydict option" where
  "aggregated_entry series_data all_episodes_data k =
     (case map_of (rev (keyed (main_cast series_data))) k of
        Some a \<Rightarrow> Some a
      | None \<Rightarrow>
          map_option (set_default ''order'' (PInt 999))
            (map_of (keyed (concat (map episode_actors all_episodes_data))) k))"

text \<open>The invariant of the aggregated map: one entry per key, stored under the key of its id.\<close>

definition keys_ok :: "(hkey \<times> pydict) list \<Rightarrow> bool" where
  "keys_ok m = (distinct (map fst m) \<and> (\<forall>(k, a) \<in> set m. py_hash_key (py_get a ''id'') = Inr k))"

text \<open>
  A record of the authoritative source with neither an \<^verbatim>\<open>id\<close> key nor a
  \<^verbatim>\<open>ProviderIds.Tmdb\<close> entry, and a resolved id that the adaptation skips.
\<close>

definition lacks_primary_id :: "pydict \<Rightarrow> bool" where
  "lacks_primary_id person_data =
     (map_of person_data ''id'' = None \<and>
      (case map_of person_data ''ProviderIds'' of
         None \<Rightarrow> True
       | Some (PDict d) \<Rightarrow> map_of d ''Tmdb'' = None
       | Some _ \<Rightarrow> False))"

definition skipped_id :: "string option \<Rightarrow> bool" where
  "skipped_id tmdb_id = (case tmdb_id of None \<Rightarrow> True | Some t \<Rightarrow> t = [] \<or> t = ''None'')"

text \<open>
  For the translation phase: a text has a usable entry in the translation cache; the trace
  entry of one successful cache read; the calls a run may make in direct mode; any call
  but the translator's.
\<close>

definition cache_hit :: "env \<Rightarrow> trace \<Rightarrow> pyval \<Rightarrow> bool" where
  "cache_hit env tr text =
     (case get_translation_from_db env tr text of
        Inr (Some d) \<Rightarrow> d \<noteq> []
      | _ \<Rightarrow> False)"

definition cache_read_event :: "hkey \<times> pyval \<Rightarrow> event" where
  "cache_read_event kt = Call (GetTranslation (snd kt)) None"

definition direct_event :: "event \<Rightarrow> bool" where
  "direct_event e = (event_kind e \<in> {KStop, KLookup, KUpsert, KTranslate, KLog})"

definition no_translate_event :: "event \<Rightarrow> bool" where
  "no_translate_event e = (event_kind e \<noteq> KTranslate)"

text \<open>A computation that returns a value has made no call that raised.\<close>

definition quiet :: "'a m \<Rightarrow> bool" where
  "quiet f = (\<forall>tr x tr'. f tr = (Inr x, tr') \<longrightarrow>
                (\<exists>new. tr' = tr @ new \<and> list_all (\<lambda>e. \<not> raised e) new))"



section \<open>Examples\<close>

text \<open>
  A processor whose collaborators find nothing and never fail, whose server accepts every
  update and scores every title above the threshold, with the helpers of \<^verbatim>\<open>utils\<close> and
  \<^verbatim>\<open>actor_utils\<close> instantiated by simple functions. The other examples vary it.
\<close>

definition ex_env :: env where
  "ex_env = \<lparr> config = [], CONFIG_OPTION_MAX_ACTORS_TO_PROCESS = ''max_actors_to_process'',
     CONFIG_OPTION_AI_TRANSLATION_ENABLED = ''ai_translation_enabled'',
     CONFIG_OPTION_AI_TRANSLATION_MODE = ''ai_translation_mode'',
     douban_api = True, tmdb_api_key = PStr ''key'', ai_translator = False,
     ai_translator_provider = PNone,
     stop_event_is_set = (\<lambda>tr. False),
     cursor_select_by_douban = (\<lambda>tr v. Inr None),
     cursor_select_by_imdb = (\<lambda>tr v. Inr None),
     cursor_select_actor_metadata = (\<lambda>tr v. Inr None),
     upsert_person = (\<lambda>tr p. Inr ()),
     get_translation_from_db = (\<lambda>tr v. Inr None),
     save_translation_to_db = (\<lambda>tr a b c. Inr ()),
     batch_translate = (\<lambda>tr ts mo ti y. Inr []),
     celebrity_details = (\<lambda>tr v. Inr PNone),
     find_person_by_external_id = (\<lambda>tr v k. Inr PNone),
     format_douban_cast = (\<lambda>xs. xs),
     clean_character_name_static = (\<lambda>v. v),
     contains_chinese = (\<lambda>v. False),
     select_best_role = (\<lambda>a b. if truthy b then b else a),
     format_and_complete_cast_list = (\<lambda>xs b. xs),
     server_call = (\<lambda>tr c. Inr (c \<noteq> EvaluateQuality)) \<rparr>"


definition ex_series :: pydict where
  "ex_series = [(''name'', PStr ''Show''),
     (''credits'', PDict [(''cast'', PList [PDict [(''id'', PInt 7), (''order'', PInt 0)]])])]"

definition ex_episodes :: "pydict list" where
  "ex_episodes = [[(''credits'', PDict
      [(''cast'', PList [PDict [(''id'', PInt 7), (''order'', PInt 5)]]),
       (''guest_stars'', PList [PDict [(''id'', PInt 9)]])])]]"

definition ex_cap_env :: env where
  "ex_cap_env = ex_env\<lparr>config := [(''max_actors_to_process'', PInt 1)]\<rparr>"

definition ex_john :: pydict where
  "ex_john = [(''id'', PInt 1), (''name'', PStr ''John''), (''order'', PInt 1)]"

definition ex_jane :: pydict where
  "ex_jane = [(''id'', PInt 2), (''name'', PStr ''Jane''), (''order'', PInt 0)]"

definition ex_wang :: pydict where
  "ex_wang = [(''Name'', PStr ''Wang''), (''DoubanCelebrityId'', PStr ''d2'')]"

definition ex_jane_final :: pydict where
  "ex_jane_final = [(''id'', PInt 2), (''name'', PStr ''Jane''), (''order'', PInt 0),
     (''emby_person_id'', PNone), (''character'', PNone),
     (''provider_ids'', PDict [(''Tmdb'', PStr ''2''), (''Imdb'', PNone), (''Douban'', PNone)])]"

definition ex_john_final :: pydict where
  "ex_john_final = [(''id'', PInt 1), (''name'', PStr ''John''), (''order'', PInt 1),
     (''emby_person_id'', PNone), (''character'', PNone),
     (''provider_ids'', PDict [(''Tmdb'', PStr ''1''), (''Imdb'', PNone), (''Douban'', PNone)])]"

definition ex_cached_env :: env where
  "ex_cached_env = ex_env\<lparr>config := [(''ai_translation_enabled'', PBool True)],
     ai_translator := True,
     get_translation_from_db := (\<lambda>tr v. Inr (Some [(''translated_text'', PStr ''ZH'')])),
     batch_translate := (\<lambda>tr ts mo ti y. Inl OtherError)\<rparr>"

definition ex_direct_env :: env where
  "ex_direct_env = ex_env\<lparr>config := [(''ai_translation_enabled'', PBool True),
                                      (''ai_translation_mode'', PStr ''quality'')],
     ai_translator := True,
     batch_translate := (\<lambda>tr ts mo ti y. Inr [(''John'', PStr ''ZH'')])\<rparr>"

definition ex_failing_translator_env :: env where
  "ex_failing_translator_env = ex_env\<lparr>config := [(''ai_translation_enabled'', PBool True)],
     ai_translator := True,
     batch_translate := (\<lambda>tr ts mo ti y. Inl OtherError)\<rparr>"

definition ex_stop_env :: env where
  "ex_stop_env = ex_env\<lparr>stop_event_is_set := (\<lambda>tr. True)\<rparr>"

definition ex_item :: pydict where
  "ex_item = [(''Id'', PStr ''item1''), (''Name'', PStr ''Film''), (''Type'', PStr ''Movie''),
              (''ProviderIds'', PDict [(''Tmdb'', PStr ''100'')])]"








section \<open>Basic facts about the two monads\<close>

lemma bind_e_Inr: "bind_e r f = Inr y \<longleftrightarrow> (\<exists>x. r = Inr x \<and> f x = Inr y)"
  by (cases r) (auto simp: bind_e_def)

lemma bind_m_Inr:
  "bind_m f g tr = (Inr y, tr'') \<longleftrightarrow> (\<exists>x tr'. f tr = (Inr x, tr') \<and> g x tr' = (Inr y, tr''))"
  by (cases "f tr") (auto simp: bind_m_def split: sum.splits)

lemma bind_m_Inl:
  "bind_m f g tr = (Inl e, tr'') \<longleftrightarrow>
     f tr = (Inl e, tr'') \<or> (\<exists>x tr'. f tr = (Inr x, tr') \<and> g x tr' = (Inl e, tr''))"
  by (cases "f tr") (auto simp: bind_m_def split: sum.splits)

lemma bind_m_step: "f tr = (Inr x, tr') \<Longrightarrow> bind_m f g tr = g x tr'"
  by (simp add: bind_m_def)

lemma bind_m_fail: "f tr = (Inl e, tr') \<Longrightarrow> bind_m f g tr = (Inl e, tr')"
  by (simp add: bind_m_def)

lemma lift_e_eq: "lift_e r tr = (r', tr') \<longleftrightarrow> r = r' \<and> tr' = tr"
  by (auto simp: lift_e_def)

lemma return_m_eq: "return_m x tr = (r, tr') \<longleftrightarrow> r = Inr x \<and> tr' = tr"
  by (auto simp: return_m_def)

lemma raise_m_eq: "raise_m e tr = (r, tr') \<longleftrightarrow> r = Inl e \<and> tr' = tr"
  by (auto simp: raise_m_def)

lemma emitsI: "(\<And>tr. \<exists>new. snd (f tr) = tr @ new \<and> list_all P new) \<Longrightarrow> emits P f"
  by (simp add: emits_def)

lemma emitsD: "emits P f \<Longrightarrow> f tr = (r, tr') \<Longrightarrow> \<exists>new. tr' = tr @ new \<and> list_all P new"
  by (auto simp: emits_def dest: spec[of _ tr])

lemma emits_return: "emits P (return_m x)"
  by (simp add: emits_def return_m_def)

lemma emits_raise: "emits P (raise_m e)"
  by (simp add: emits_def raise_m_def)

lemma emits_lift: "emits P (lift_e r)"
  by (simp add: emits_def lift_e_def)

lemma emits_ext: "(\<And>r. P (Call c r)) \<Longrightarrow> emits P (ext c oracle)"
  by (auto simp: emits_def ext_def split: sum.splits)

lemma emits_bind:
  assumes "emits P f" and "\<And>x. emits P (g x)"
  shows "emits P (bind_m f g)"
proof (rule emitsI)
  fix tr
  obtain r tr1 where f: "f tr = (r, tr1)" by (cases "f tr")
  from emitsD[OF assms(1) f] obtain n1 where n1: "tr1 = tr @ n1" "list_all P n1" by auto
  show "\<exists>new. snd (bind_m f g tr) = tr @ new \<and> list_all P new"
  proof (cases r)
    case (Inl e)
    then show ?thesis using f n1 by (auto simp: bind_m_def)
  next
    case (Inr x)
    obtain r2 tr2 where g: "g x tr1 = (r2, tr2)" by (cases "g x tr1")
    from emitsD[OF assms(2) g] obtain n2 where n2: "tr2 = tr1 @ n2" "list_all P n2" by auto
    show ?thesis using f Inr g n1 n2 by (auto simp: bind_m_def)
  qed
qed

lemma emits_if: "emits P f \<Longrightarrow> emits P g \<Longrightarrow> emits P (if b then f else g)"
  by simp

lemma emits_mono: "emits P f \<Longrightarrow> (\<And>e. P e \<Longrightarrow> Q e) \<Longrightarrow> emits Q f"
  unfolding emits_def by (meson list_all_iff list.pred_mono_strong)

lemmas emits_intros = emits_bind emits_ext emits_return emits_raise emits_lift

lemma matching_event_Call [simp]:
  "matching_event (Call c r) = (call_kind c \<in> {KStop, KLookup, KUpsert, KLog})"
  by (simp add: matching_event_def)

lemma emits_stop: "emits matching_event (is_stop_requested env)"
  by (simp add: is_stop_requested_def emits_ext)

lemma emits_catch_sqlite:
  assumes "emits matching_event f" shows "emits matching_event (catch_sqlite f)"
proof (rule emitsI)
  fix tr
  obtain r tr1 where f: "f tr = (r, tr1)" by (cases "f tr")
  from emitsD[OF assms f] obtain n1 where "tr1 = tr @ n1" "list_all matching_event n1" by auto
  then show "\<exists>new. snd (catch_sqlite f tr) = tr @ new \<and> list_all matching_event new"
    using f by (auto simp: catch_sqlite_def split: sum.splits)
qed

lemma emits_find_douban: "emits matching_event (find_person_in_map_by_douban_id env v)"
  by (auto simp: find_person_in_map_by_douban_id_def intro!: emits_catch_sqlite emits_intros)

lemma emits_find_imdb: "emits matching_event (find_person_in_map_by_imdb_id env v)"
  by (auto simp: find_person_in_map_by_imdb_id_def intro!: emits_catch_sqlite emits_intros)

lemma emits_metadata: "emits matching_event (get_actor_metadata_from_cache env t)"
  by (auto simp: get_actor_metadata_from_cache_def intro!: emits_intros)

lemma emits_add_new_actor: "emits matching_event (add_new_actor env t d i dd m)"
  by (auto simp: add_new_actor_def intro!: emits_intros emits_metadata)

lemma emits_upsert: "emits matching_event (upsert env p)"
  by (auto simp: upsert_def intro!: emits_intros)

lemma emits_pass_b_step: "emits matching_event (pass_b_step env d m)"
  by (auto simp: pass_b_step_def Let_def split: option.splits
      intro!: emits_intros emits_find_douban emits_add_new_actor)

lemma emits_pass_b: "emits matching_event (pass_b env ds m still)"
  by (induction ds arbitrary: m still)
     (auto intro!: emits_intros emits_stop emits_pass_b_step split: prod.splits)

lemma emits_pass_c_via_map: "emits matching_event (pass_c_via_map env d dd di m)"
  by (auto simp: pass_c_via_map_def Let_def split: option.splits
      intro!: emits_intros emits_find_imdb emits_add_new_actor emits_upsert)

lemma emits_pass_c_via_tmdb: "emits matching_event (pass_c_via_tmdb env d dd di m)"
  by (auto simp: pass_c_via_tmdb_def Let_def split: option.splits
      intro!: emits_intros emits_stop emits_add_new_actor emits_upsert)

lemma emits_pass_c_step: "emits matching_event (pass_c_step env d m)"
  by (auto simp: pass_c_step_def Let_def split: option.splits prod.splits
      intro!: emits_intros emits_stop emits_pass_c_via_map emits_pass_c_via_tmdb)

lemma emits_pass_c: "emits matching_event (pass_c env limit ds m still)"
  by (induction ds arbitrary: m still)
     (auto intro!: emits_intros emits_stop emits_pass_c_step split: prod.splits)

lemma emits_supplement: "emits matching_event (supplement env limit ud m)"
  by (auto simp: supplement_def intro!: emits_intros emits_pass_b emits_pass_c split: prod.splits)

lemma emits_matching: "emits matching_event (matching env tmdb emby douban)"
  by (auto simp: matching_def intro!: emits_intros emits_supplement split: prod.splits)

lemma translation_event_Call [simp]:
  "translation_event (Call c r) = (call_kind c \<in> {KCacheRead, KCacheWrite, KTranslate, KLog})"
  by (simp add: translation_event_def)

lemma ext_Inr: "ext c oracle tr = (Inr x, tr') \<longleftrightarrow> oracle tr = Inr x \<and> tr' = tr @ [Call c None]"
  by (auto simp: ext_def split: sum.splits)

lemma full_write_back_Inr:
  "full_write_back env xs tr = (Inr u, tr') \<Longrightarrow> tr' = tr @ map upsert_event xs"
proof (induction xs arbitrary: tr)
  case Nil
  then show ?case by (simp add: return_m_def)
next
  case (Cons a xs)
  from Cons.prems obtain tr1 where
    u: "upsert env (write_back_row a) tr = (Inr (), tr1)" and r: "full_write_back env xs tr1 = (Inr u, tr')"
    by (auto simp: bind_m_Inr)
  from u have "tr1 = tr @ [upsert_event a]" by (simp add: upsert_def ext_Inr upsert_event_def)
  with Cons.IH[OF r] show ?case by simp
qed

lemma emits_check_cache: "emits translation_event (check_cache env texts c s)"
  by (induction texts arbitrary: c s) (auto intro!: emits_intros)

lemma emits_save_translations: "emits translation_event (save_translations env xs)"
  by (induction xs) (auto intro!: emits_intros)

lemma emits_translation_try: "emits translation_event (translation_try env item cast)"
  by (auto simp: translation_try_def intro!: emits_intros emits_check_cache emits_save_translations
      split: prod.splits)

lemma emits_catch_all:
  assumes "emits P f" and "P (Call LogError None)"
  shows "emits P (\<lambda>tr. case f tr of (Inl e, tr') \<Rightarrow> (Inr (h e), tr' @ [Call LogError None])
                                   | (Inr x, tr') \<Rightarrow> (g x, tr'))"
proof (rule emitsI)
  fix tr
  obtain r tr1 where f: "f tr = (r, tr1)" by (cases "f tr")
  from emitsD[OF assms(1) f] obtain n1 where "tr1 = tr @ n1" "list_all P n1" by auto
  then show "\<exists>new. snd (case f tr of (Inl e, tr') \<Rightarrow> (Inr (h e), tr' @ [Call LogError None])
                                   | (Inr x, tr') \<Rightarrow> (g x, tr')) = tr @ new \<and> list_all P new"
    using f assms(2) by (auto split: sum.splits)
qed

lemma emits_translate_phase: "emits translation_event (translate_phase env item cast)"
  unfolding translate_phase_def
  by (auto intro!: emits_return emits_catch_all[where h="\<lambda>e. cast"] emits_translation_try)

lemma backfill_length: "backfill env c xs = Inr ys \<Longrightarrow> length ys = length xs"
  by (induction xs arbitrary: ys) (auto simp: bind_e_Inr)

lemma translate_phase_length:
  "translate_phase env item cast tr = (Inr ys, tr') \<Longrightarrow> length ys = length cast"
  by (auto simp: translate_phase_def return_m_def split: if_splits prod.splits sum.splits
      dest: backfill_length)

lemma py_int_exn: "py_int v = Inl e \<Longrightarrow> e = ValueError \<or> e = TypeError"
  by (cases v) (auto split: option.splits)

lemma max_actors_limit_eq:
  "max_actors_limit env =
     Inr (case py_int (py_get_default (config env) (CONFIG_OPTION_MAX_ACTORS_TO_PROCESS env) (PInt 30)) of
            Inr n \<Rightarrow> if n \<le> 0 then 30 else n
          | Inl e \<Rightarrow> 30)"
  by (auto simp: max_actors_limit_def split: sum.splits dest: py_int_exn)

lemma max_actors_limit_pos: "max_actors_limit env = Inr limit \<Longrightarrow> 0 < limit"
  by (auto simp: max_actors_limit_eq split: sum.splits if_splits)

lemma truncate_cast_length:
  "truncate_cast limit xs = Inr ys \<Longrightarrow> 0 < limit \<Longrightarrow> int (length ys) = min limit (int (length xs))"
  by (auto simp: truncate_cast_def bind_e_Inr split: if_splits)

lemma finishing_Inr:
  assumes "finishing env item ws tr = (Inr final, tr')"
  shows "\<exists>limit cast_to_process translated animation rest.
           max_actors_limit env = Inr limit \<and>
           truncate_cast limit ws = Inr cast_to_process \<and>
           translate_phase env item cast_to_process (tr @ map upsert_event ws) = (Inr translated, tr') \<and>
           is_animation item = Inr animation \<and>
           final = map attach_provider_ids (format_and_complete_cast_list env translated animation) \<and>
           tr' = tr @ map upsert_event ws @ rest \<and> list_all translation_event rest"
proof -
  from assms obtain tr1 limit ctp translated anim where
    w: "full_write_back env ws tr = (Inr (), tr1)" and
    l: "max_actors_limit env = Inr limit" and
    t: "truncate_cast limit ws = Inr ctp" and
    p: "translate_phase env item ctp tr1 = (Inr translated, tr')" and
    a: "is_animation item = Inr anim" and
    f: "final = map attach_provider_ids (format_and_complete_cast_list env translated anim)"
    by (auto simp: finishing_def bind_m_Inr lift_e_eq return_m_eq)
  from full_write_back_Inr[OF w] have tr1: "tr1 = tr @ map upsert_event ws" .
  from emitsD[OF emits_translate_phase p] obtain rest where
    "tr' = tr1 @ rest" "list_all translation_event rest" by auto
  with l t p a f tr1 show ?thesis by auto
qed

lemma process_Inr:
  assumes "process_cast_list_from_api env tmdb emby douban item tr = (Inr final, tr')"
  shows "\<exists>ws ud tr1. matching env tmdb emby douban tr = (Inr (ws, ud), tr1) \<and>
           finishing env item ws tr1 = (Inr final, tr')"
  using assms by (auto simp: process_cast_list_from_api_def bind_m_Inr)

lemma finishing_event_Call [simp]:
  "finishing_event (Call c r) = (call_kind c \<in> {KUpsert, KCacheRead, KCacheWrite, KTranslate, KLog})"
  by (simp add: finishing_event_def)

lemma emits_full_write_back: "emits finishing_event (full_write_back env xs)"
  by (induction xs) (auto simp: upsert_def intro!: emits_intros)

lemma emits_finishing: "emits finishing_event (finishing env item ws)"
  unfolding finishing_def
  by (intro emits_bind emits_lift emits_return emits_full_write_back
        emits_mono[OF emits_translate_phase])
     (simp add: translation_event_def finishing_event_def)

section \<open>The cap invariant\<close>



section \<open>The gate after pass A\<close>

text \<open>
  C5. When the working set built from pass A has reached the cap, the matching stage ends
  with the trace unchanged: passes B and C make no call at all, the working set is the one
  of pass A and every regional candidate left by pass A stays unmatched. A run that then
  returns makes no stop check and no candidate lookup, and its list has exactly the length
  of the cap (the formatter being length-preserving).
\<close>

theorem cap_reached_skips_supplement:
  assumes fmt: "\<forall>xs b. length (format_and_complete_cast_list env xs b) = length xs"
    and e: "build_emby_map emby_cast_people [] = Inr emby_map"
    and a: "adapt_cast_list emby_map tmdb_cast_people = Inr local_cast_list"
    and pa: "pass_a env (format_douban_cast env douban_cast_list) local_cast_list [] []
               = Inr (merged_actors, unmatched_local_actors, unmatched_douban_actors)"
    and l: "max_actors_limit env = Inr limit"
    and reached: "limit \<le> int (length (build_final_cast_map (merged_actors @ unmatched_local_actors) []))"
  shows "matching env tmdb_cast_people emby_cast_people douban_cast_list tr
           = (Inr (map snd (build_final_cast_map (merged_actors @ unmatched_local_actors) []),
                   unmatched_douban_actors), tr) \<and>
         (\<exists>new. snd (process_cast_list_from_api env tmdb_cast_people emby_cast_people
                        douban_cast_list item tr) = tr @ new \<and>
                list_all (\<lambda>e. event_kind e \<notin> {KStop, KLookup}) new) \<and>
         (case fst (process_cast_list_from_api env tmdb_cast_people emby_cast_people
                      douban_cast_list item tr) of
            Inr final_cast \<Rightarrow> int (length final_cast) = limit
          | Inl e \<Rightarrow> True)"
proof -
  let ?ws = "map snd (build_final_cast_map (merged_actors @ unmatched_local_actors) [])"
  let ?run = "process_cast_list_from_api env tmdb_cast_people emby_cast_people douban_cast_list item tr"
  have m: "matching env tmdb_cast_people emby_cast_people douban_cast_list tr
             = (Inr (?ws, unmatched_douban_actors), tr)"
    using e a pa l reached
    by (simp add: matching_def bind_m_def lift_e_def supplement_def return_m_def)
  have p: "?run = finishing env item ?ws tr"
    by (simp add: process_cast_list_from_api_def bind_m_def m)
  obtain r tr' where f: "finishing env item ?ws tr = (r, tr')" by (cases "finishing env item ?ws tr")
  from emitsD[OF emits_finishing f] obtain new where
    new: "tr' = tr @ new" "list_all finishing_event new" by blast
  have "list_all (\<lambda>e. event_kind e \<notin> {KStop, KLookup}) new"
    using new(2) by (auto simp: list_all_iff finishing_event_def)
  then have ev: "\<exists>new. snd ?run = tr @ new \<and> list_all (\<lambda>e. event_kind e \<notin> {KStop, KLookup}) new"
    using p f new(1) by auto
  have len: "int (length final_cast) = limit" if r: "r = Inr final_cast" for final_cast
  proof -
    from finishing_Inr[OF f[unfolded r]] l obtain ctp translated animation where
      t: "truncate_cast limit ?ws = Inr ctp" and
      tp: "translate_phase env item ctp (tr @ map upsert_event ?ws) = (Inr translated, tr')" and
      fc: "final_cast = map attach_provider_ids (format_and_complete_cast_list env translated animation)"
      by auto
    have "length final_cast = length translated" using fmt fc by simp
    also have "\<dots> = length ctp" by (rule translate_phase_length[OF tp])
    finally show ?thesis
      using truncate_cast_length[OF t max_actors_limit_pos[OF l]] reached by simp
  qed
  show ?thesis using m ev len p f by (auto split: sum.splits)
qed

text \<open>The theorem instantiated on a concrete run.\<close>

theorem cap_reached_skips_supplement_witness:
  "(\<forall>xs b. length (format_and_complete_cast_list ex_cap_env xs b) = length xs) \<and>
   build_emby_map [] [] = Inr [] \<and>
   adapt_cast_list [] [ex_john] = Inr [adapt_entry [] ''1'' ex_john] \<and>
   pass_a ex_cap_env (format_douban_cast ex_cap_env [ex_wang]) [adapt_entry [] ''1'' ex_john] [] []
     = Inr ([], [adapt_entry [] ''1'' ex_john], [ex_wang]) \<and>
   max_actors_limit ex_cap_env = Inr 1 \<and>
   1 \<le> int (length (build_final_cast_map ([] @ [adapt_entry [] ''1'' ex_john]) [])) \<and>
   matching ex_cap_env [ex_john] [] [ex_wang] []
     = (Inr (map snd (build_final_cast_map ([] @ [adapt_entry [] ''1'' ex_john]) []), [ex_wang]), []) \<and>
   (\<exists>new. snd (process_cast_list_from_api ex_cap_env [ex_john] [] [ex_wang] [] []) = [] @ new \<and>
          list_all (\<lambda>e. event_kind e \<notin> {KStop, KLookup}) new) \<and>
   process_cast_list_from_api ex_cap_env [ex_john] [] [ex_wang] [] []
     = (Inr [ex_john_final], [upsert_event ex_john]) \<and>
   int (length [ex_john_final]) = 1"
proof -
  have fmt: "\<forall>xs b. length (format_and_complete_cast_list ex_cap_env xs b) = length xs"
    by (simp add: ex_cap_env_def ex_env_def)
  have e: "build_emby_map [] [] = Inr []" by simp
  have a: "adapt_cast_list [] [ex_john] = Inr [adapt_entry [] ''1'' ex_john]" by code_simp
  have pa: "pass_a ex_cap_env (format_douban_cast ex_cap_env [ex_wang]) [adapt_entry [] ''1'' ex_john] [] []
     = Inr ([], [adapt_entry [] ''1'' ex_john], [ex_wang])" by code_simp
  have l: "max_actors_limit ex_cap_env = Inr 1" by code_simp
  have r: "1 \<le> int (length (build_final_cast_map ([] @ [adapt_entry [] ''1'' ex_john]) []))"
    by code_simp
  have run: "process_cast_list_from_api ex_cap_env [ex_john] [] [ex_wang] [] []
     = (Inr [ex_john_final], [upsert_event ex_john])" by code_simp
  from cap_reached_skips_supplement[OF fmt e a pa l r, of "[]" "[]"] fmt e a pa l r run
  show ?thesis by simp
qed

section \<open>The full write-back\<close>

text \<open>
  C6. In a run that returns, the calls made after the matching stage begin with one
  successful upsert for each member of the working set, in order, each carrying the
  member's primary id; no other upsert follows; and the truncation is applied afterwards to
  that same working set, keeping at most the cap.
\<close>

theorem write_back_covers_working_set:
  assumes run: "process_cast_list_from_api env tmdb_cast_people emby_cast_people douban_cast_list
                item tr = (Inr final_cast, tr')"
  shows "\<exists>working_set unmatched tr1 rest limit cast_to_process.
           matching env tmdb_cast_people emby_cast_people douban_cast_list tr
             = (Inr (working_set, unmatched), tr1) \<and>
           tr' = tr1 @ map upsert_event working_set @ rest \<and>
           list_all (\<lambda>e. event_kind e \<noteq> KUpsert) rest \<and>
           map (\<lambda>a. py_get (write_back_row a) ''tmdb_id'') working_set
             = map (\<lambda>a. py_get a ''id'') working_set \<and>
           max_actors_limit env = Inr limit \<and>
           truncate_cast limit working_set = Inr cast_to_process \<and>
           int (length cast_to_process) = min limit (int (length working_set))"
proof -
  from process_Inr[OF run] obtain ws ud tr1 where
    m: "matching env tmdb_cast_people emby_cast_people douban_cast_list tr = (Inr (ws, ud), tr1)" and
    f: "finishing env item ws tr1 = (Inr final_cast, tr')" by blast
  from finishing_Inr[OF f] obtain limit ctp rest where
    l: "max_actors_limit env = Inr limit" and t: "truncate_cast limit ws = Inr ctp" and
    tr': "tr' = tr1 @ map upsert_event ws @ rest" and r: "list_all translation_event rest"
    by blast
  have "list_all (\<lambda>e. event_kind e \<noteq> KUpsert) rest"
    using r by (auto simp: list_all_iff translation_event_def)
  moreover have "map (\<lambda>a. py_get (write_back_row a) ''tmdb_id'') ws = map (\<lambda>a. py_get a ''id'') ws"
    by (simp add: write_back_row_def py_get_def)
  ultimately show ?thesis
    using m l t tr' truncate_cast_length[OF t max_actors_limit_pos[OF l]] by blast
qed

text \<open>The theorem instantiated on a concrete run.\<close>

theorem write_back_covers_working_set_witness:
  "process_cast_list_from_api ex_cap_env [ex_john, ex_jane] [] [] [] []
     = (Inr [ex_jane_final], [upsert_event ex_john, upsert_event ex_jane]) \<and>
   (\<exists>working_set unmatched tr1 rest limit cast_to_process.
           matching ex_cap_env [ex_john, ex_jane] [] [] []
             = (Inr (working_set, unmatched), tr1) \<and>
           [upsert_event ex_john, upsert_event ex_jane] = tr1 @ map upsert_event working_set @ rest \<and>
           list_all (\<lambda>e. event_kind e \<noteq> KUpsert) rest \<and>
           map (\<lambda>a. py_get (write_back_row a) ''tmdb_id'') working_set
             = map (\<lambda>a. py_get a ''id'') working_set \<and>
           max_actors_limit ex_cap_env = Inr limit \<and>
           truncate_cast limit working_set = Inr cast_to_process \<and>
           int (length cast_to_process) = min limit (int (length working_set)))"
proof -
  have run: "process_cast_list_from_api ex_cap_env [ex_john, ex_jane] [] [] [] []
     = (Inr [ex_jane_final], [upsert_event ex_john, upsert_event ex_jane])"
    by code_simp
  from write_back_covers_working_set[OF run] run show ?thesis by blast
qed

section \<open>Aggregation of a series\<close>

lemma load_main_cast_map:
  "load_main_cast xs m = Inr m' \<Longrightarrow> map_of m' = map_of m ++ map_of (rev (keyed xs))"
proof (induction xs arbitrary: m)
  case Nil
  then show ?case by (simp add: keyed.simps(1))
next
  case (Cons x xs)
  show ?case
  proof (cases x)
    case (PDict a)
    show ?thesis
    proof (cases "truthy (py_get a ''id'')")
      case True
      with Cons.prems PDict obtain k where k: "py_hash_key (py_get a ''id'') = Inr k"
        and r: "load_main_cast xs (AList.update k a m) = Inr m'"
        by (auto simp: bind_e_Inr py_val_get_def)
      from Cons.IH[OF r] have "map_of m' = map_of (AList.update k a m) ++ map_of (rev (keyed xs))" .
      moreover have "id_key x = Some (k, a)" using PDict True k by (simp add: id_key_def)
      ultimately show ?thesis
        by (simp add: keyed.simps(2) update_conv' map_add_def fun_eq_iff split: option.splits)
    next
      case False
      with Cons.prems PDict have r: "load_main_cast xs m = Inr m'"
        by (auto simp: bind_e_Inr py_val_get_def)
      moreover have "id_key x = None" using PDict False by (simp add: id_key_def)
      ultimately show ?thesis using Cons.IH[OF r] by (simp add: keyed.simps(2))
    qed
  qed (use Cons.prems in \<open>auto simp: bind_e_Inr py_val_get_def\<close>)
qed

lemma keyed_append: "keyed (xs @ ys) = keyed xs @ keyed ys"
  by (induction xs) (auto split: option.splits)

lemma id_key_SomeD: "id_key x = Some (k, a) \<Longrightarrow> x = PDict a \<and> truthy (py_get a ''id'') \<and> py_hash_key (py_get a ''id'') = Inr k"
  by (auto simp: id_key_def split: pyval.splits if_splits sum.splits)

lemma add_episode_actors_map:
  "add_episode_actors xs m = Inr m' \<Longrightarrow>
   map_of m' = (map_option (set_default ''order'' (PInt 999)) \<circ> map_of (keyed xs)) ++ map_of m"
proof (induction xs arbitrary: m)
  case Nil
  then show ?case by (simp add: fun_eq_iff map_add_def split: option.splits)
next
  case (Cons x xs)
  show ?case
  proof (cases "id_key x")
    case None
    with Cons.prems have r: "add_episode_actors xs m = Inr m'"
      by (cases x) (auto simp: bind_e_Inr py_val_get_def id_key_def split: if_splits sum.splits)
    show ?thesis using Cons.IH[OF r] None by simp
  next
    case (Some p)
    obtain k a where p: "p = (k, a)" by (cases p)
    from id_key_SomeD[OF Some[unfolded p]]
    have x: "x = PDict a" and t: "truthy (py_get a ''id'')" and h: "py_hash_key (py_get a ''id'') = Inr k"
      by auto
    show ?thesis
    proof (cases "map_of m k")
      case None
      with Cons.prems x t h
      have r: "add_episode_actors xs (AList.update k (set_default ''order'' (PInt 999) a) m) = Inr m'"
        by (auto simp: bind_e_Inr py_val_get_def)
      from Cons.IH[OF r] None Some p show ?thesis
        by (auto simp: fun_eq_iff map_add_def update_conv' split: option.splits)
    next
      case (Some b)
      with Cons.prems x t h have r: "add_episode_actors xs m = Inr m'"
        by (auto simp: bind_e_Inr py_val_get_def)
      from Cons.IH[OF r] Some \<open>id_key x = Some p\<close> p show ?thesis
        by (auto simp: fun_eq_iff map_add_def split: option.splits)
    qed
  qed
qed

lemma add_episodes_map:
  "add_episodes eps m = Inr m' \<Longrightarrow>
   map_of m' = (map_option (set_default ''order'' (PInt 999)) \<circ>
                  map_of (keyed (concat (map episode_actors eps)))) ++ map_of m"
proof (induction eps arbitrary: m)
  case Nil
  then show ?case by (simp add: fun_eq_iff)
next
  case (Cons ep eps)
  from Cons.prems obtain c g both acts m1 where
    c: "py_val_get_default (py_get_default ep ''credits'' (PDict [])) ''cast'' (PList []) = Inr c"
    and g: "py_val_get_default (py_get_default ep ''credits'' (PDict [])) ''guest_stars'' (PList []) = Inr g"
    and b: "py_concat c g = Inr both" and i: "py_iter both = Inr acts"
    and a: "add_episode_actors acts m = Inr m1" and r: "add_episodes eps m1 = Inr m'"
    by (auto simp: bind_e_Inr Let_def)
  have ea: "episode_actors ep = acts"
    using c g b i by (simp add: episode_actors_def bind_e_def)
  from Cons.IH[OF r] add_episode_actors_map[OF a] ea show ?case
    by (auto simp: fun_eq_iff map_add_def keyed_append split: option.splits)
qed

lemma set_update_subset: "set (AList.update k v al) \<subseteq> insert (k, v) (set al)"
  by (induction al) auto

lemma keys_ok_update:
  "keys_ok m \<Longrightarrow> py_hash_key (py_get a ''id'') = Inr k \<Longrightarrow> keys_ok (AList.update k a m)"
  unfolding keys_ok_def using set_update_subset[of k a m]
  by (auto simp: distinct_update)

lemma py_get_set_default_other:
  "k \<noteq> k' \<Longrightarrow> py_get (set_default k v a) k' = py_get a k'"
  by (simp add: set_default_def py_get_def update_conv')

lemma load_main_cast_keys_ok:
  "load_main_cast xs m = Inr m' \<Longrightarrow> keys_ok m \<Longrightarrow> keys_ok m'"
proof (induction xs arbitrary: m)
  case Nil
  then show ?case by simp
next
  case (Cons x xs)
  then show ?case
    by (cases x) (auto simp: bind_e_Inr py_val_get_def keys_ok_update split: if_splits)
qed

lemma add_episode_actors_keys_ok:
  "add_episode_actors xs m = Inr m' \<Longrightarrow> keys_ok m \<Longrightarrow> keys_ok m'"
proof (induction xs arbitrary: m)
  case Nil
  then show ?case by simp
next
  case (Cons x xs)
  then show ?case
    by (cases x)
       (auto simp: bind_e_Inr py_val_get_def keys_ok_update py_get_set_default_other
             split: if_splits)
qed

lemma add_episodes_keys_ok:
  "add_episodes eps m = Inr m' \<Longrightarrow> keys_ok m \<Longrightarrow> keys_ok m'"
proof (induction eps arbitrary: m)
  case Nil
  then show ?case by simp
next
  case (Cons ep eps)
  then show ?case
    by (auto simp: bind_e_Inr Let_def dest: add_episode_actors_keys_ok)
qed

lemma aggregated_cast_map_char:
  assumes "aggregated_cast_map series_data eps = Inr m"
  shows "map_of m = aggregated_entry series_data eps" and "keys_ok m"
proof -
  from assms obtain mc xs m0 where
    mc: "py_val_get_default (py_get_default series_data ''credits'' (PDict [])) ''cast'' (PList []) = Inr mc"
    and it: "py_iter mc = Inr xs"
    and l: "load_main_cast xs [] = Inr m0" and a: "add_episodes eps m0 = Inr m"
    by (auto simp: aggregated_cast_map_def bind_e_Inr)
  have main: "main_cast series_data = xs"
    using mc it by (simp add: main_cast_def bind_e_def)
  have "keys_ok []" by (simp add: keys_ok_def)
  from add_episodes_keys_ok[OF a load_main_cast_keys_ok[OF l this]] show "keys_ok m" .
  from load_main_cast_map[OF l] add_episodes_map[OF a] main
  show "map_of m = aggregated_entry series_data eps"
    by (auto simp: fun_eq_iff aggregated_entry_def map_add_def split: option.splits)
qed

lemma sort_by_order_mset: "sort_by_order xs = Inr ys \<Longrightarrow> mset ys = mset xs"
  by (auto simp: sort_by_order_def split: if_splits)

text \<open>
  C9, as amended. The aggregated cast has no two entries with one id, and its entries are
  exactly these: for an id of the series' own listing, the last entry of that listing with
  the id, unchanged; for an id seen only in episodes, the first episode entry with the id,
  to which \<^verbatim>\<open>order = 999\<close> is added only if it has no \<^verbatim>\<open>order\<close> key.
\<close>

theorem aggregate_series_cast_dedup:
  assumes "aggregate_series_cast_from_tmdb_data series_data all_episodes_data = Inr result"
  shows "distinct (map (\<lambda>a. py_hash_key (py_get a ''id'')) result) \<and>
         set result = ran (aggregated_entry series_data all_episodes_data)"
proof -
  from assms obtain m where m: "aggregated_cast_map series_data all_episodes_data = Inr m"
    and s: "sort_by_order (map snd m) = Inr result"
    by (auto simp: aggregate_series_cast_from_tmdb_data_def bind_e_Inr)
  note c = aggregated_cast_map_char[OF m]
  have ms: "mset result = mset (map snd m)" by (rule sort_by_order_mset[OF s])
  have km: "map (\<lambda>a. py_hash_key (py_get a ''id'')) (map snd m) = map (\<lambda>p. Inr (fst p)) m"
    using c(2) by (auto simp: keys_ok_def)
  have "distinct (map (\<lambda>p. Inr (fst p) :: exn + hkey) m)"
    using c(2) by (simp add: keys_ok_def distinct_map inj_on_def)
  then have "distinct (map (\<lambda>a. py_hash_key (py_get a ''id'')) (map snd m))"
    unfolding km .
  moreover have "mset (map (\<lambda>a. py_hash_key (py_get a ''id'')) result)
      = mset (map (\<lambda>a. py_hash_key (py_get a ''id'')) (map snd m))"
    by (simp only: mset_map ms)
  ultimately have d: "distinct (map (\<lambda>a. py_hash_key (py_get a ''id'')) result)"
    using mset_eq_imp_distinct_iff by blast
  have "set result = set (map snd m)" by (rule mset_eq_setD[OF ms])
  also have "\<dots> = snd ` set m" by simp
  also have "\<dots> = ran (map_of m)" using c(2) by (simp add: keys_ok_def ran_distinct)
  finally show ?thesis using d c(1) by simp
qed

text \<open>The theorem instantiated on a concrete run.\<close>

theorem aggregate_series_cast_dedup_witness:
  "aggregate_series_cast_from_tmdb_data ex_series ex_episodes
     = Inr [[(''id'', PInt 7), (''order'', PInt 0)], [(''id'', PInt 9), (''order'', PInt 999)]] \<and>
   distinct (map (\<lambda>a. py_hash_key (py_get a ''id''))
      [[(''id'', PInt 7), (''order'', PInt 0)], [(''id'', PInt 9), (''order'', PInt 999)]]) \<and>
   set [[(''id'', PInt 7), (''order'', PInt 0)], [(''id'', PInt 9), (''order'', PInt 999)]]
     = ran (aggregated_entry ex_series ex_episodes)"
proof -
  have h: "aggregate_series_cast_from_tmdb_data ex_series ex_episodes
     = Inr [[(''id'', PInt 7), (''order'', PInt 0)], [(''id'', PInt 9), (''order'', PInt 999)]]"
    by code_simp
  from aggregate_series_cast_dedup[OF h] h show ?thesis by (intro conjI) simp_all
qed

text \<open>
  C9 as stated fails: an id seen only in an episode whose entry carries its own order keeps
  that order instead of the sentinel 999.
\<close>

theorem sub_part_order_counterexample:
  "aggregate_series_cast_from_tmdb_data []
     [[(''credits'', PDict [(''cast'', PList [PDict [(''id'', PInt 7), (''order'', PInt 3)]])])]]
     = Inr [[(''id'', PInt 7), (''order'', PInt 3)]] \<and>
   py_get [(''id'', PInt 7), (''order'', PInt 3)] ''order'' \<noteq> PInt 999"
  by code_simp

section \<open>The translation phase\<close>

lemma direct_event_Call [simp]:
  "direct_event (Call c r) = (call_kind c \<in> {KStop, KLookup, KUpsert, KTranslate, KLog})"
  by (simp add: direct_event_def)

lemma no_translate_event_Call [simp]:
  "no_translate_event (Call c r) = (call_kind c \<noteq> KTranslate)"
  by (simp add: no_translate_event_def)

lemma emits_bind_strong:
  assumes "emits P f" and "\<And>x tr tr'. f tr = (Inr x, tr') \<Longrightarrow> emits P (g x)"
  shows "emits P (bind_m f g)"
proof (rule emitsI)
  fix tr
  obtain r tr1 where f: "f tr = (r, tr1)" by (cases "f tr")
  from emitsD[OF assms(1) f] obtain n1 where n1: "tr1 = tr @ n1" "list_all P n1" by auto
  show "\<exists>new. snd (bind_m f g tr) = tr @ new \<and> list_all P new"
  proof (cases r)
    case (Inl e)
    then show ?thesis using f n1 by (auto simp: bind_m_def)
  next
    case (Inr x)
    obtain r2 tr2 where g: "g x tr1 = (r2, tr2)" by (cases "g x tr1")
    from emitsD[OF assms(2)[OF f[unfolded Inr]] g] obtain n2 where
      n2: "tr2 = tr1 @ n2" "list_all P n2" by auto
    show ?thesis using f Inr g n1 n2 by (auto simp: bind_m_def)
  qed
qed

lemma check_cache_all_hits:
  "(\<forall>tr. list_all (\<lambda>kt. cache_hit env tr (snd kt)) texts) \<Longrightarrow>
   \<exists>c'. check_cache env texts c s tr = (Inr (c', s), tr @ map cache_read_event texts)"
proof (induction texts arbitrary: c tr)
  case Nil
  then show ?case by (simp add: return_m_def)
next
  case (Cons kt texts)
  from Cons.prems have h: "cache_hit env tr (snd kt)"
    and rest: "\<forall>tr. list_all (\<lambda>kt. cache_hit env tr (snd kt)) texts" by auto
  from h obtain d where d: "get_translation_from_db env tr (snd kt) = Inr (Some d)" "d \<noteq> []"
    by (auto simp: cache_hit_def split: sum.splits option.splits)
  from Cons.IH[OF rest] obtain c' where
    "check_cache env texts (AList.update (fst kt) (py_get (or_empty (Some d)) ''translated_text'') c) s
       (tr @ [cache_read_event kt]) = (Inr (c', s), (tr @ [cache_read_event kt]) @ map cache_read_event texts)"
    by blast
  then show ?case using d by (auto simp: bind_m_def ext_def cache_read_event_def)
qed

lemma translate_phase_all_hits:
  assumes mode: "translation_mode env = PStr ''fast''"
    and col: "collect_texts env cast [] = Inr texts"
    and hits: "\<forall>tr. list_all (\<lambda>kt. cache_hit env tr (snd kt)) texts"
  shows "snd (translate_phase env item cast tr)
           = tr @ (if ai_translation_enabled env then map cache_read_event texts else [])"
proof (cases "ai_translation_enabled env")
  case False
  then show ?thesis by (simp add: translate_phase_def return_m_def)
next
  case True
  from check_cache_all_hits[OF hits, of "[]" "[]" tr] obtain c' where
    c: "check_cache env texts [] [] tr = (Inr (c', []), tr @ map cache_read_event texts)" by blast
  have "translation_try env item cast tr = (Inr c', tr @ map cache_read_event texts)"
    using mode col c by (simp add: translation_try_def bind_m_def lift_e_def return_m_def)
  then show ?thesis using True by (simp add: translate_phase_def)
qed

lemma emits_translate_phase_all_hits:
  assumes mode: "translation_mode env = PStr ''fast''"
    and col: "collect_texts env cast [] = Inr texts"
    and hits: "\<forall>tr. list_all (\<lambda>kt. cache_hit env tr (snd kt)) texts"
  shows "emits no_translate_event (translate_phase env item cast)"
proof (rule emitsI)
  fix tr
  have "list_all no_translate_event (if ai_translation_enabled env then map cache_read_event texts else [])"
    by (auto simp: list_all_iff cache_read_event_def)
  then show "\<exists>new. snd (translate_phase env item cast tr) = tr @ new \<and> list_all no_translate_event new"
    using translate_phase_all_hits[OF assms] by blast
qed

lemma emits_full_write_back_nt: "emits no_translate_event (full_write_back env xs)"
  by (induction xs) (auto simp: upsert_def intro!: emits_intros)

lemma emits_matching_nt: "emits no_translate_event (matching env a b c)"
  by (rule emits_mono[OF emits_matching]) (auto simp: matching_event_def no_translate_event_def)

lemma emits_process_all_hits:
  assumes mode: "translation_mode env = PStr ''fast''"
    and m: "fst (matching env tmdb emby douban tr0) = Inr (ws, ud)"
    and l: "max_actors_limit env = Inr limit"
    and t: "truncate_cast limit ws = Inr cast"
    and col: "collect_texts env cast [] = Inr texts"
    and hits: "\<forall>tr. list_all (\<lambda>kt. cache_hit env tr (snd kt)) texts"
  shows "\<exists>new. snd (process_cast_list_from_api env tmdb emby douban item tr0) = tr0 @ new \<and>
           list_all no_translate_event new"
proof -
  have fin: "emits no_translate_event (finishing env item ws)"
    unfolding finishing_def
    apply (intro emits_bind_strong emits_lift emits_return emits_full_write_back_nt)
    apply (auto simp: lift_e_eq l t intro!: emits_translate_phase_all_hits[OF mode col hits])
    done
  obtain tr1 where m1: "matching env tmdb emby douban tr0 = (Inr (ws, ud), tr1)"
    using m by (cases "matching env tmdb emby douban tr0") auto
  from emitsD[OF emits_matching_nt m1] obtain n1 where n1: "tr1 = tr0 @ n1" "list_all no_translate_event n1"
    by blast
  obtain r tr2 where f: "finishing env item ws tr1 = (r, tr2)" by (cases "finishing env item ws tr1")
  from emitsD[OF fin f] obtain n2 where n2: "tr2 = tr1 @ n2" "list_all no_translate_event n2" by blast
  have "process_cast_list_from_api env tmdb emby douban item tr0 = (r, tr2)"
    using m1 f by (simp add: process_cast_list_from_api_def bind_m_def)
  then show ?thesis using n1 n2 by auto
qed

lemma emits_translation_try_direct:
  "translation_mode env \<noteq> PStr ''fast'' \<Longrightarrow> emits direct_event (translation_try env item cast)"
  by (auto simp: translation_try_def intro!: emits_intros)

lemma emits_translate_phase_direct:
  "translation_mode env \<noteq> PStr ''fast'' \<Longrightarrow> emits direct_event (translate_phase env item cast)"
  unfolding translate_phase_def
  by (auto intro!: emits_return emits_catch_all[where h="\<lambda>e. cast"] emits_translation_try_direct)

lemma emits_full_write_back_direct: "emits direct_event (full_write_back env xs)"
  by (induction xs) (auto simp: upsert_def intro!: emits_intros)

lemma emits_process_direct:
  assumes "translation_mode env \<noteq> PStr ''fast''"
  shows "emits direct_event (process_cast_list_from_api env tmdb emby douban item)"
  unfolding process_cast_list_from_api_def finishing_def
  by (auto intro!: emits_intros emits_full_write_back_direct emits_translate_phase_direct[OF assms]
        emits_mono[OF emits_matching] simp: matching_event_def direct_event_def)

text \<open>
  C7. In cached mode (the mode value \<^verbatim>\<open>'fast'\<close>), if every text collected from the capped set
  of the run has a usable entry in the translation cache, the run never calls the translator.
  In any other mode the run neither reads nor writes the translation cache.
\<close>

theorem translation_cache_policy:
  "(translation_mode env = PStr ''fast'' \<and>
    fst (matching env tmdb_cast_people emby_cast_people douban_cast_list tr) = Inr (working_set, unmatched) \<and>
    max_actors_limit env = Inr limit \<and>
    truncate_cast limit working_set = Inr cast_to_process \<and>
    collect_texts env cast_to_process [] = Inr texts_to_collect \<and>
    (\<forall>tr'. list_all (\<lambda>kt. cache_hit env tr' (snd kt)) texts_to_collect)
    \<longrightarrow> (\<exists>new. snd (process_cast_list_from_api env tmdb_cast_people emby_cast_people
                       douban_cast_list item tr) = tr @ new \<and>
               list_all (\<lambda>e. event_kind e \<noteq> KTranslate) new)) \<and>
   (translation_mode env \<noteq> PStr ''fast''
    \<longrightarrow> (\<exists>new. snd (process_cast_list_from_api env tmdb_cast_people emby_cast_people
                       douban_cast_list item tr) = tr @ new \<and>
               list_all (\<lambda>e. event_kind e \<notin> {KCacheRead, KCacheWrite}) new))"
proof (intro conjI impI)
  assume h: "translation_mode env = PStr ''fast'' \<and>
    fst (matching env tmdb_cast_people emby_cast_people douban_cast_list tr) = Inr (working_set, unmatched) \<and>
    max_actors_limit env = Inr limit \<and>
    truncate_cast limit working_set = Inr cast_to_process \<and>
    collect_texts env cast_to_process [] = Inr texts_to_collect \<and>
    (\<forall>tr'. list_all (\<lambda>kt. cache_hit env tr' (snd kt)) texts_to_collect)"
  then have "\<exists>new. snd (process_cast_list_from_api env tmdb_cast_people emby_cast_people
                       douban_cast_list item tr) = tr @ new \<and> list_all no_translate_event new"
    by (intro emits_process_all_hits[where ws=working_set and ud=unmatched and limit=limit
          and cast=cast_to_process and texts=texts_to_collect]) auto
  then show "\<exists>new. snd (process_cast_list_from_api env tmdb_cast_people emby_cast_people
                       douban_cast_list item tr) = tr @ new \<and>
               list_all (\<lambda>e. event_kind e \<noteq> KTranslate) new"
    by (auto simp: list_all_iff no_translate_event_def)
next
  assume d: "translation_mode env \<noteq> PStr ''fast''"
  obtain r tr' where p: "process_cast_list_from_api env tmdb_cast_people emby_cast_people
                       douban_cast_list item tr = (r, tr')"
    by (cases "process_cast_list_from_api env tmdb_cast_people emby_cast_people douban_cast_list item tr")
  from emitsD[OF emits_process_direct[OF d] p] obtain new where
    "tr' = tr @ new" "list_all direct_event new" by blast
  then show "\<exists>new. snd (process_cast_list_from_api env tmdb_cast_people emby_cast_people
                       douban_cast_list item tr) = tr @ new \<and>
               list_all (\<lambda>e. event_kind e \<notin> {KCacheRead, KCacheWrite}) new"
    using p by (auto simp: list_all_iff direct_event_def)
qed

text \<open>The theorem instantiated on a concrete run.\<close>

theorem translation_cache_policy_witness:
  "translation_mode ex_cached_env = PStr ''fast'' \<and>
   fst (matching ex_cached_env [ex_john] [] [] []) = Inr ([adapt_entry [] ''1'' ex_john], []) \<and>
   max_actors_limit ex_cached_env = Inr 30 \<and>
   truncate_cast 30 [adapt_entry [] ''1'' ex_john] = Inr [adapt_entry [] ''1'' ex_john] \<and>
   collect_texts ex_cached_env [adapt_entry [] ''1'' ex_john] [] = Inr [(KStr ''John'', PStr ''John'')] \<and>
   (\<forall>tr'. list_all (\<lambda>kt. cache_hit ex_cached_env tr' (snd kt)) [(KStr ''John'', PStr ''John'')]) \<and>
   (\<exists>new. snd (process_cast_list_from_api ex_cached_env [ex_john] [] [] [] []) = [] @ new \<and>
          list_all (\<lambda>e. event_kind e \<noteq> KTranslate) new) \<and>
   translation_mode ex_direct_env \<noteq> PStr ''fast'' \<and>
   (\<exists>new. snd (process_cast_list_from_api ex_direct_env [ex_john] [] [] [] []) = [] @ new \<and>
          list_all (\<lambda>e. event_kind e \<notin> {KCacheRead, KCacheWrite}) new)"
proof -
  have 1: "translation_mode ex_cached_env = PStr ''fast''" by code_simp
  have 2: "fst (matching ex_cached_env [ex_john] [] [] []) = Inr ([adapt_entry [] ''1'' ex_john], [])"
    by code_simp
  have 3: "max_actors_limit ex_cached_env = Inr 30" by code_simp
  have 4: "truncate_cast 30 [adapt_entry [] ''1'' ex_john] = Inr [adapt_entry [] ''1'' ex_john]"
    by code_simp
  have 5: "collect_texts ex_cached_env [adapt_entry [] ''1'' ex_john] [] = Inr [(KStr ''John'', PStr ''John'')]"
    by code_simp
  have 6: "\<forall>tr'. list_all (\<lambda>kt. cache_hit ex_cached_env tr' (snd kt)) [(KStr ''John'', PStr ''John'')]"
    by (simp add: cache_hit_def ex_cached_env_def ex_env_def)
  have 7: "translation_mode ex_direct_env \<noteq> PStr ''fast''" by code_simp
  note a = translation_cache_policy[where env=ex_cached_env and tmdb_cast_people="[ex_john]"
      and emby_cast_people="[]" and douban_cast_list="[]" and tr="[]" and item="[]"
      and working_set="[adapt_entry [] ''1'' ex_john]" and unmatched="[]" and limit=30
      and cast_to_process="[adapt_entry [] ''1'' ex_john]"
      and texts_to_collect="[(KStr ''John'', PStr ''John'')]", THEN conjunct1, rule_format]
  note b = translation_cache_policy[where env=ex_direct_env and tmdb_cast_people="[ex_john]"
      and emby_cast_people="[]" and douban_cast_list="[]" and tr="[]" and item="[]",
      THEN conjunct2, rule_format, OF 7]
  from a[OF conjI[OF 1 conjI[OF 2 conjI[OF 3 conjI[OF 4 conjI[OF 5 6]]]]]] b 1 2 3 4 5 6 7
  show ?thesis by blast
qed

lemma quietD: "quiet f \<Longrightarrow> f tr = (Inr x, tr') \<Longrightarrow> \<exists>new. tr' = tr @ new \<and> list_all (\<lambda>e. \<not> raised e) new"
  by (simp add: quiet_def)

lemma quiet_return: "quiet (return_m x)"
  by (simp add: quiet_def return_m_def)

lemma quiet_lift: "quiet (lift_e r)"
  by (simp add: quiet_def lift_e_def)

lemma quiet_ext: "quiet (ext c oracle)"
  by (auto simp: quiet_def ext_def split: sum.splits)

lemma quiet_bind:
  assumes "quiet f" and "\<And>x. quiet (g x)"
  shows "quiet (bind_m f g)"
  unfolding quiet_def
proof (intro allI impI)
  fix tr y tr'' assume "bind_m f g tr = (Inr y, tr'')"
  then obtain x tr' where f: "f tr = (Inr x, tr')" and g: "g x tr' = (Inr y, tr'')"
    by (auto simp: bind_m_Inr)
  from quietD[OF assms(1) f] quietD[OF assms(2) g]
  show "\<exists>new. tr'' = tr @ new \<and> list_all (\<lambda>e. \<not> raised e) new" by auto
qed

lemmas quiet_intros = quiet_bind quiet_ext quiet_return quiet_lift

lemma quiet_check_cache: "quiet (check_cache env texts c s)"
  by (induction texts arbitrary: c s) (auto intro!: quiet_intros)

lemma quiet_save_translations: "quiet (save_translations env xs)"
  by (induction xs) (auto intro!: quiet_intros)

lemma quiet_translation_try: "quiet (translation_try env item cast)"
  by (auto simp: translation_try_def intro!: quiet_intros quiet_check_cache quiet_save_translations
      split: prod.splits)

lemma translate_phase_abandoned:
  assumes p: "translate_phase env item cast tr = (r, tr')"
    and ev: "Call (BatchTranslate texts mode) (Some e) \<in> set (drop (length tr) tr')"
  shows "r = Inr cast"
proof (cases "ai_translation_enabled env")
  case False
  with p ev show ?thesis by (simp add: translate_phase_def return_m_def)
next
  case True
  obtain r1 tr1 where t: "translation_try env item cast tr = (r1, tr1)"
    by (cases "translation_try env item cast tr")
  show ?thesis
  proof (cases r1)
    case (Inl e1)
    with p t True show ?thesis by (auto simp: translate_phase_def)
  next
    case (Inr c)
    from quietD[OF quiet_translation_try t[unfolded Inr]] obtain new where
      new: "tr1 = tr @ new" "list_all (\<lambda>e. \<not> raised e) new" by blast
    from p t True Inr have "tr' = tr1" by (auto simp: translate_phase_def)
    with ev new have False by (auto simp: list_all_iff)
    then show ?thesis ..
  qed
qed

text \<open>
  C8. If the translator raises during the translation phase of a run whose write-back and
  truncation have succeeded, the phase returns the capped set exactly as it received it, and
  the reconciliation returns that set, formatted, instead of failing (the item's genres
  being readable).
\<close>

theorem translation_failure_abandons_phase:
  assumes m: "matching env tmdb_cast_people emby_cast_people douban_cast_list tr
                = (Inr (working_set, unmatched), tr1)"
    and w: "full_write_back env working_set tr1 = (Inr (), tr2)"
    and l: "max_actors_limit env = Inr limit"
    and t: "truncate_cast limit working_set = Inr cast_to_process"
    and p: "translate_phase env item cast_to_process tr2 = (r, tr3)"
    and ev: "Call (BatchTranslate texts mode) (Some e) \<in> set (drop (length tr2) tr3)"
    and a: "is_animation item = Inr animation"
  shows "r = Inr cast_to_process \<and>
         process_cast_list_from_api env tmdb_cast_people emby_cast_people douban_cast_list item tr
           = (Inr (map attach_provider_ids
                     (format_and_complete_cast_list env cast_to_process animation)), tr3)"
proof -
  have r: "r = Inr cast_to_process" by (rule translate_phase_abandoned[OF p ev])
  then show ?thesis using m w l t p a
    by (simp add: process_cast_list_from_api_def finishing_def bind_m_def lift_e_def return_m_def)
qed

text \<open>The theorem instantiated on a concrete run.\<close>

theorem translation_failure_abandons_phase_witness:
  "matching ex_failing_translator_env [ex_john] [] [] [] = (Inr ([adapt_entry [] ''1'' ex_john], []), []) \<and>
   full_write_back ex_failing_translator_env [adapt_entry [] ''1'' ex_john] []
     = (Inr (), [upsert_event ex_john]) \<and>
   max_actors_limit ex_failing_translator_env = Inr 30 \<and>
   truncate_cast 30 [adapt_entry [] ''1'' ex_john] = Inr [adapt_entry [] ''1'' ex_john] \<and>
   translate_phase ex_failing_translator_env [] [adapt_entry [] ''1'' ex_john] [upsert_event ex_john]
     = (Inr [adapt_entry [] ''1'' ex_john],
        [upsert_event ex_john, Call (GetTranslation (PStr ''John'')) None,
         Call (BatchTranslate [PStr ''John''] (PStr ''fast'')) (Some OtherError),
         Call LogError None]) \<and>
   Call (BatchTranslate [PStr ''John''] (PStr ''fast'')) (Some OtherError)
     \<in> set (drop (length [upsert_event ex_john])
           [upsert_event ex_john, Call (GetTranslation (PStr ''John'')) None,
            Call (BatchTranslate [PStr ''John''] (PStr ''fast'')) (Some OtherError),
            Call LogError None]) \<and>
   is_animation [] = Inr False \<and>
   process_cast_list_from_api ex_failing_translator_env [ex_john] [] [] [] []
     = (Inr (map attach_provider_ids
               (format_and_complete_cast_list ex_failing_translator_env
                  [adapt_entry [] ''1'' ex_john] False)),
        [upsert_event ex_john, Call (GetTranslation (PStr ''John'')) None,
         Call (BatchTranslate [PStr ''John''] (PStr ''fast'')) (Some OtherError),
         Call LogError None])"
proof -
  have m: "matching ex_failing_translator_env [ex_john] [] [] []
             = (Inr ([adapt_entry [] ''1'' ex_john], []), [])" by code_simp
  have w: "full_write_back ex_failing_translator_env [adapt_entry [] ''1'' ex_john] []
     = (Inr (), [upsert_event ex_john])" by code_simp
  have l: "max_actors_limit ex_failing_translator_env = Inr 30" by code_simp
  have t: "truncate_cast 30 [adapt_entry [] ''1'' ex_john] = Inr [adapt_entry [] ''1'' ex_john]"
    by code_simp
  have p: "translate_phase ex_failing_translator_env [] [adapt_entry [] ''1'' ex_john] [upsert_event ex_john]
     = (Inr [adapt_entry [] ''1'' ex_john],
        [upsert_event ex_john, Call (GetTranslation (PStr ''John'')) None,
         Call (BatchTranslate [PStr ''John''] (PStr ''fast'')) (Some OtherError),
         Call LogError None])" by code_simp
  have ev: "Call (BatchTranslate [PStr ''John''] (PStr ''fast'')) (Some OtherError)
     \<in> set (drop (length [upsert_event ex_john])
           [upsert_event ex_john, Call (GetTranslation (PStr ''John'')) None,
            Call (BatchTranslate [PStr ''John''] (PStr ''fast'')) (Some OtherError),
            Call LogError None])" by simp
  have a: "is_animation [] = Inr False" by code_simp
  from translation_failure_abandons_phase[OF m w l t p ev a] m w l t p ev a
  show ?thesis by blast
qed

section \<open>Cancellation and exceptions\<close>

text \<open>
  C3, as amended. If the stop flag is set when pass B makes its first check, which
  requires that the working set after pass A is below the cap and that at least one regional
  candidate is left unmatched, then the session returns failure and its only call is that
  stop check: nothing is upserted and nothing is committed.
\<close>

theorem stop_before_pass_b_aborts:
  assumes tm: "provider_tmdb item = Inr tmdb_id" and tt: "truthy tmdb_id"
    and e: "build_emby_map emby_cast_people [] = Inr emby_map"
    and a: "adapt_cast_list emby_map tmdb_cast_people = Inr local_cast_list"
    and pa: "pass_a env (format_douban_cast env douban_cast_list) local_cast_list [] []
               = Inr (merged_actors, unmatched_local_actors, unmatched_douban_actors)"
    and l: "max_actors_limit env = Inr limit"
    and below: "int (length (build_final_cast_map (merged_actors @ unmatched_local_actors) [])) < limit"
    and ne: "unmatched_douban_actors \<noteq> []"
    and stop: "stop_event_is_set env tr"
  shows "process_item_core_logic_api_version env item tmdb_cast_people emby_cast_people
           douban_cast_list tr = (Inr False, tr @ [Call StopCheck None])"
proof -
  obtain d ds where ud: "unmatched_douban_actors = d # ds" using ne by (cases unmatched_douban_actors) auto
  have b: "pass_b env unmatched_douban_actors
             (build_final_cast_map (merged_actors @ unmatched_local_actors) []) [] tr
           = (Inl InterruptedError, tr @ [Call StopCheck None])"
    using stop by (simp add: ud bind_m_def is_stop_requested_def ext_def raise_m_def)
  have s: "supplement env limit unmatched_douban_actors
             (build_final_cast_map (merged_actors @ unmatched_local_actors) []) tr
           = (Inl InterruptedError, tr @ [Call StopCheck None])"
    using below b by (simp add: supplement_def bind_m_def)
  have m: "matching env tmdb_cast_people emby_cast_people douban_cast_list tr
           = (Inl InterruptedError, tr @ [Call StopCheck None])"
    using e a pa l s by (simp add: matching_def bind_m_def lift_e_def)
  have p: "process_cast_list_from_api env tmdb_cast_people emby_cast_people douban_cast_list item tr
           = (Inl InterruptedError, tr @ [Call StopCheck None])"
    using m by (simp add: process_cast_list_from_api_def bind_m_def)
  have sb: "session_body env item tmdb_cast_people emby_cast_people douban_cast_list tr
           = (Inl InterruptedError, tr @ [Call StopCheck None])"
    using p by (simp add: session_body_def bind_m_def)
  show ?thesis
    using tm tt sb by (simp add: process_item_core_logic_api_version_def bind_m_def lift_e_def)
qed

text \<open>The theorem instantiated on a concrete run.\<close>

theorem stop_before_pass_b_aborts_witness:
  "provider_tmdb ex_item = Inr (PStr ''100'') \<and> truthy (PStr ''100'') \<and>
   build_emby_map [] [] = Inr [] \<and>
   adapt_cast_list [] [ex_john] = Inr [adapt_entry [] ''1'' ex_john] \<and>
   pass_a ex_stop_env (format_douban_cast ex_stop_env [ex_wang]) [adapt_entry [] ''1'' ex_john] [] []
     = Inr ([], [adapt_entry [] ''1'' ex_john], [ex_wang]) \<and>
   max_actors_limit ex_stop_env = Inr 30 \<and>
   int (length (build_final_cast_map ([] @ [adapt_entry [] ''1'' ex_john]) [])) < 30 \<and>
   [ex_wang] \<noteq> [] \<and>
   stop_event_is_set ex_stop_env [] \<and>
   process_item_core_logic_api_version ex_stop_env ex_item [ex_john] [] [ex_wang] []
     = (Inr False, [] @ [Call StopCheck None])"
proof -
  have tm: "provider_tmdb ex_item = Inr (PStr ''100'')" by code_simp
  have tt: "truthy (PStr ''100'')" by simp
  have e: "build_emby_map [] [] = Inr []" by simp
  have a: "adapt_cast_list [] [ex_john] = Inr [adapt_entry [] ''1'' ex_john]" by code_simp
  have pa: "pass_a ex_stop_env (format_douban_cast ex_stop_env [ex_wang]) [adapt_entry [] ''1'' ex_john] [] []
     = Inr ([], [adapt_entry [] ''1'' ex_john], [ex_wang])" by code_simp
  have l: "max_actors_limit ex_stop_env = Inr 30" by code_simp
  have b: "int (length (build_final_cast_map ([] @ [adapt_entry [] ''1'' ex_john]) [])) < 30"
    by code_simp
  have ne: "[ex_wang] \<noteq> []" by simp
  have st: "stop_event_is_set ex_stop_env []" by (simp add: ex_stop_env_def ex_env_def)
  from stop_before_pass_b_aborts[OF tm tt e a pa l b ne st] tm tt e a pa l b ne st
  show ?thesis by blast
qed

text \<open>
  C3 as stated fails: with the flag set from the start and no regional candidate to
  process, no stop check is reached; the member is upserted, the server is updated and the
  session commits and returns success.
\<close>

theorem stop_without_candidates_counterexample:
  "stop_event_is_set ex_stop_env [] \<and>
   process_item_core_logic_api_version ex_stop_env ex_item [ex_john] [] [] []
     = (Inr True,
        [upsert_event ex_john,
         Call (UpdateEmbyItemCast (cast_for_emby_handler [ex_john_final])) None,
         Call RefreshEmbyItemMetadata None, Call EvaluateQuality None,
         Call SaveToProcessedLog None, Call RemoveFromFailedLog None,
         Call Commit None])"
  by code_simp




section \<open>Match pass A\<close>








section \<open>Records without a primary id\<close>

lemma resolve_lacking: "lacks_primary_id r \<Longrightarrow> resolve_tmdb_id r = Inr None"
  by (auto simp: lacks_primary_id_def resolve_tmdb_id_def provider_tmdb_def py_val_get_def
        py_get_default_def py_get_def bind_e_def split: option.splits pyval.splits)

lemma adapt_cast_list_skip:
  assumes "resolve_tmdb_id r = Inr t" and "skipped_id t"
  shows "adapt_cast_list m (xs @ r # ys) = adapt_cast_list m (xs @ ys)"
proof (induction xs)
  case Nil
  show ?case using assms by (auto simp: bind_e_def skipped_id_def split: option.splits)
next
  case (Cons x xs)
  show ?case by (simp only: append_Cons adapt_cast_list.simps Cons.IH)
qed

text \<open>
  C10. A record of the authoritative source that has neither an \<^verbatim>\<open>id\<close> key nor a
  \<^verbatim>\<open>ProviderIds.Tmdb\<close> entry, or whose id resolves to the string \<^verbatim>\<open>'None'\<close>, is
  dropped by the adaptation: the baseline is the same with and without it, and so is the
  whole reconciliation, its returned list and its trace.
\<close>

theorem unresolvable_member_dropped:
  assumes "lacks_primary_id r \<or> resolve_tmdb_id r = Inr (Some ''None'')"
  shows "adapt_cast_list m (xs @ r # ys) = adapt_cast_list m (xs @ ys) \<and>
         process_cast_list_from_api env (xs @ r # ys) emby_cast_people douban_cast_list item
           = process_cast_list_from_api env (xs @ ys) emby_cast_people douban_cast_list item"
proof -
  from assms obtain t where t: "resolve_tmdb_id r = Inr t" "skipped_id t"
    by (auto simp: skipped_id_def dest: resolve_lacking)
  have a: "\<And>m. adapt_cast_list m (xs @ r # ys) = adapt_cast_list m (xs @ ys)"
    by (rule adapt_cast_list_skip[OF t])
  show ?thesis
    by (simp add: a process_cast_list_from_api_def matching_def)
qed

text \<open>The theorem instantiated on a concrete run.\<close>

theorem unresolvable_member_dropped_witness:
  "(lacks_primary_id [(''Name'', PStr ''Ghost'')] \<or>
      resolve_tmdb_id [(''Name'', PStr ''Ghost'')] = Inr (Some ''None'')) \<and>
   adapt_cast_list [] ([[(''id'', PInt 1)]] @ [(''Name'', PStr ''Ghost'')] # [[(''id'', PInt 2)]])
     = adapt_cast_list [] ([[(''id'', PInt 1)]] @ [[(''id'', PInt 2)]]) \<and>
   process_cast_list_from_api ex_env
       ([[(''id'', PInt 1)]] @ [(''Name'', PStr ''Ghost'')] # [[(''id'', PInt 2)]]) [] [] []
     = process_cast_list_from_api ex_env ([[(''id'', PInt 1)]] @ [[(''id'', PInt 2)]]) [] [] []"
proof -
  have h: "lacks_primary_id [(''Name'', PStr ''Ghost'')] \<or>
      resolve_tmdb_id [(''Name'', PStr ''Ghost'')] = Inr (Some ''None'')"
    by (simp add: lacks_primary_id_def)
  from unresolvable_member_dropped[OF h] h show ?thesis by blast
qed

end
